theory Spec2Isabelle
  imports Main "HOL-Library.Word" "HOL-Library.Multiset"
begin

unbundle bit_operations_syntax

section \<open>The DNSSEC interference measurement: src/dns-test.js\<close>

text \<open>
  The development embeds the measurement engine of \<^verbatim>\<open>src/dns-test.js\<close> (the file with
  \<^verbatim>\<open>COMMON_QUERIES\<close> and \<^verbatim>\<open>computeKey\<close>): the query catalog, the key derivation, the two
  packet encoders, the three send paths with their retry loops, the work list of
  \<^verbatim>\<open>sendQueries\<close> and the report of \<^verbatim>\<open>runMeasurement\<close>.

  JavaScript values are modelled as follows. A string is a \<open>string\<close>. An object used as a
  dictionary (\<^verbatim>\<open>dnsData\<close>, \<^verbatim>\<open>dnsAttempts\<close>) is a map, a missing property (\<^verbatim>\<open>undefined\<close>)
  being \<open>None\<close>. A number is a \<open>jsnum\<close>: an integer or \<^verbatim>\<open>NaN\<close>. An exception is a
  completion value next to the state reached when it was thrown, since the globals keep
  what was written before the throw.
\<close>

subsection \<open>Constants\<close>

definition APEX_DOMAIN_NAME :: string where
  "APEX_DOMAIN_NAME = ''dnssec-experiment-moz.net''"

definition SMIMEA_PREFIX :: string where
  "SMIMEA_PREFIX = ''9f86d081884c7d659a2feaa0c55ad015a3bf4f1b2b0b822cd15d6c15.''"

definition HTTPS_PREFIX :: string where
  "HTTPS_PREFIX = ''httpssvc.''"

definition PER_CLIENT_PREFIX :: string where
  "PER_CLIENT_PREFIX = ''pc.''"

definition RESOLVCONF_ATTEMPTS :: nat where
  "RESOLVCONF_ATTEMPTS = 2"

definition STUDY_START :: string where
  "STUDY_START = ''STUDY_START''"

definition STUDY_MEASUREMENT_COMPLETED :: string where
  "STUDY_MEASUREMENT_COMPLETED = ''STUDY_MEASUREMENT_COMPLETED''"

definition STUDY_ERROR_UDP_WEBEXT :: string where
  "STUDY_ERROR_UDP_WEBEXT = ''STUDY_ERROR_UDP_WEBEXT''"

definition STUDY_ERROR_UDP_MISC :: string where
  "STUDY_ERROR_UDP_MISC = ''STUDY_ERROR_UDP_MISC''"

definition STUDY_ERROR_TCP_MISC :: string where
  "STUDY_ERROR_TCP_MISC = ''STUDY_ERROR_TCP_MISC''"

definition STUDY_ERROR_UDP_ENCODE :: string where
  "STUDY_ERROR_UDP_ENCODE = ''STUDY_ERROR_UDP_ENCODE''"

definition STUDY_ERROR_TCP_ENCODE :: string where
  "STUDY_ERROR_TCP_ENCODE = ''STUDY_ERROR_TCP_ENCODE''"

definition STUDY_ERROR_NAMESERVERS_OS_NOT_SUPPORTED :: string where
  "STUDY_ERROR_NAMESERVERS_OS_NOT_SUPPORTED = ''STUDY_ERROR_NAMESERVERS_OS_NOT_SUPPORTED''"

definition STUDY_ERROR_NAMESERVERS_NOT_FOUND :: string where
  "STUDY_ERROR_NAMESERVERS_NOT_FOUND = ''STUDY_ERROR_NAMESERVERS_NOT_FOUND''"

definition STUDY_ERROR_NAMESERVERS_INVALID_ADDR :: string where
  "STUDY_ERROR_NAMESERVERS_INVALID_ADDR = ''STUDY_ERROR_NAMESERVERS_INVALID_ADDR''"

definition STUDY_ERROR_NAMESERVERS_MISC :: string where
  "STUDY_ERROR_NAMESERVERS_MISC = ''STUDY_ERROR_NAMESERVERS_MISC''"

definition STUDY_ERROR_CAPTIVE_PORTAL_FAILED :: string where
  "STUDY_ERROR_CAPTIVE_PORTAL_FAILED = ''STUDY_ERROR_CAPTIVE_PORTAL_FAILED''"

definition MAX_TXID :: nat where
  "MAX_TXID = 65535"

definition MIN_TXID :: nat where
  "MIN_TXID = 0"

definition UDP_PAYLOAD_SIZE :: nat where
  "UDP_PAYLOAD_SIZE = 4096"

subsection \<open>The query catalog\<close>

text \<open>
  An entry of \<^verbatim>\<open>COMMON_QUERIES\<close>. The source reads \<^verbatim>\<open>noedns0\<close> only for its truth value
  (\<^verbatim>\<open>noedns0 ? ... : ...\<close>, \<^verbatim>\<open>if (args.noedns0)\<close>), so the property that most entries
  leave out is \<open>False\<close> here.
\<close>

record query =
  rrtype :: string
  prefix :: string
  dnssec_ok :: bool
  checking_disabled :: bool
  noedns0 :: bool

definition mk_query :: "string \<Rightarrow> string \<Rightarrow> bool \<Rightarrow> bool \<Rightarrow> bool \<Rightarrow> query" where
  "mk_query r p d c n =
     \<lparr>rrtype = r, prefix = p, dnssec_ok = d, checking_disabled = c, noedns0 = n\<rparr>"

definition COMMON_QUERIES :: "query list" where
  "COMMON_QUERIES =
     [mk_query ''SMIMEA'' SMIMEA_PREFIX False False False,
      mk_query ''HTTPS'' HTTPS_PREFIX False False False,
      mk_query ''A'' '''' False False False,
      mk_query ''A'' '''' False False True,
      mk_query ''A'' '''' False True False,
      mk_query ''A'' '''' True False False,
      mk_query ''A'' '''' True True False,
      mk_query ''DNSKEY'' '''' False False False,
      mk_query ''RRSIG'' '''' False False False,
      mk_query ''NEWONE'' '''' False False False,
      mk_query ''NEWTWO'' '''' False False False,
      mk_query ''NEWTHREE'' '''' False False False,
      mk_query ''NEWFOUR'' '''' False False False]"

subsection \<open>The lookup key\<close>

text \<open>
  \<^verbatim>\<open>computeKey(transport, args, perClient)\<close>: the string \<^verbatim>\<open>tmp\<close> starts as
  \<^verbatim>\<open>transport + args.rrtype\<close> and grows by four guarded \<^verbatim>\<open>+=\<close>, in the order of the
  source.
\<close>

definition computeKey :: "string \<Rightarrow> query \<Rightarrow> bool \<Rightarrow> string" where
  "computeKey transport args perClient =
     (let tmp = transport @ rrtype args;
          tmp = (if dnssec_ok args then tmp @ ''DO'' else tmp);
          tmp = (if checking_disabled args then tmp @ ''CD'' else tmp);
          tmp = (if perClient then tmp @ ''-U'' else tmp);
          tmp = (if noedns0 args then tmp @ ''-N'' else tmp)
      in tmp)"



subsection \<open>JavaScript values\<close>

text \<open>
  A counter of \<^verbatim>\<open>dnsAttempts\<close> is a JavaScript number. The source only adds 1 to it and
  tests its truth value, so a number is an integer or \<^verbatim>\<open>NaN\<close>. A property that was never
  written reads as \<^verbatim>\<open>undefined\<close>, which is \<open>None\<close>.
\<close>

datatype jsnum = Num int | NaN

text \<open>\<^verbatim>\<open>x + 1\<close> for a counter read from the map: \<^verbatim>\<open>undefined + 1\<close> and \<^verbatim>\<open>NaN + 1\<close> are \<^verbatim>\<open>NaN\<close>.\<close>

fun plus_one :: "jsnum option \<Rightarrow> jsnum" where
  "plus_one None = NaN"
| "plus_one (Some NaN) = NaN"
| "plus_one (Some (Num n)) = Num (n + 1)"

text \<open>The truth value of a counter: \<^verbatim>\<open>undefined\<close>, \<^verbatim>\<open>NaN\<close> and \<^verbatim>\<open>0\<close> are falsy.\<close>

fun truthy_num :: "jsnum option \<Rightarrow> bool" where
  "truthy_num None = False"
| "truthy_num (Some NaN) = False"
| "truthy_num (Some (Num n)) = (n \<noteq> 0)"

type_synonym byte = "8 word"

text \<open>
  A value stored in \<^verbatim>\<open>dnsData\<close>: \<^verbatim>\<open>Array.from(responseBytes)\<close> on the socket paths,
  \<^verbatim>\<open>response.addresses\<close> on the WebExtensions path. Both are arrays, and an array is truthy
  even when empty.
\<close>

datatype response = Bytes "byte list" | Addresses "string list"

definition truthy :: "response option \<Rightarrow> bool" where
  "truthy v = (v \<noteq> None)"

text \<open>\<^verbatim>\<open>b == 0\<close> for a boolean \<^verbatim>\<open>b\<close> compares the number of \<^verbatim>\<open>b\<close> with 0.\<close>

definition bool_to_number :: "bool \<Rightarrow> int" where
  "bool_to_number b = (if b then 1 else 0)"

definition startsWith :: "string \<Rightarrow> string \<Rightarrow> bool" where
  "startsWith s p = (take (length p) s = p)"

text \<open>The value of a property of a telemetry payload.\<close>

datatype jsval =
    JStr string
  | JNum jsnum
  | JUndefined
  | JData "string \<Rightarrow> response option"
  | JAttempts "string \<Rightarrow> jsnum option"

text \<open>A payload object: its properties in insertion order.\<close>

type_synonym payload = "(string \<times> jsval) list"

text \<open>\<^verbatim>\<open>obj.name = v\<close>: an existing property keeps its place, a new one goes last.\<close>

fun set_prop :: "payload \<Rightarrow> string \<Rightarrow> jsval \<Rightarrow> payload" where
  "set_prop [] name v = [(name, v)]"
| "set_prop ((n, x) # ps) name v =
     (if n = name then (n, v) # ps else (n, x) # set_prop ps name v)"

definition field_names :: "payload \<Rightarrow> string set" where
  "field_names p = set (map fst p)"

definition num_val :: "jsnum option \<Rightarrow> jsval" where
  "num_val v = (case v of None \<Rightarrow> JUndefined | Some n \<Rightarrow> JNum n)"

subsection \<open>The packet handed to the dns-packet library\<close>

record question =
  q_type :: string
  q_name :: string

text \<open>An entry of \<^verbatim>\<open>additionals\<close>; a property the object literal leaves out is \<open>None\<close>.\<close>

record additional =
  a_type :: string
  a_name :: string
  a_udpPayloadSize :: "nat option"
  a_flags :: "32 word option"

text \<open>The argument of \<^verbatim>\<open>DNS_PACKET.encode\<close>; \<^verbatim>\<open>additionals: null\<close> is \<open>None\<close>.\<close>

record packet =
  p_type :: string
  p_id :: nat
  p_flags :: "32 word"
  p_questions :: "question list"
  p_additionals :: "additional list option"

subsection \<open>The environment\<close>

text \<open>A promise of the browser settles with a value or rejects with an \<^verbatim>\<open>Error\<close> and its message.\<close>

datatype 'a outcome = Resolved 'a | Rejected string

text \<open>A call of one of the three resolution interfaces, as issued.\<close>

datatype call =
    ResolveCall string "string list"
  | UDPCall string "byte list" string
  | TCPCall string "byte list"

text \<open>
  Everything the source takes from outside the file. The dns-packet library gives three
  flag constants and two encoders, \<open>None\<close> when the encoder throws. The browser gives the
  resolver and the two sockets: their answer may depend on the arguments and on the
  number of calls issued before. \<open>Math_random k n\<close> stands for
  \<^verbatim>\<open>Math.floor(Math.random() * n)\<close> at the \<open>k\<close>-th call of \<^verbatim>\<open>Math.random\<close>.
  \<open>IP_REGEX_test\<close> stands for \<^verbatim>\<open>IP_REGEX({exact: true}).test\<close>.
\<close>

record world =
  RECURSION_DESIRED :: "32 word"
  CHECKING_DISABLED :: "32 word"
  DNSSEC_OK :: "32 word"
  DNS_PACKET_encode :: "packet \<Rightarrow> byte list option"
  DNS_PACKET_streamEncode :: "packet \<Rightarrow> byte list option"
  Math_random :: "nat \<Rightarrow> nat \<Rightarrow> nat"
  dns_resolve :: "nat \<Rightarrow> string \<Rightarrow> string list \<Rightarrow> string list outcome"
  udpsocket_sendDNSQuery :: "nat \<Rightarrow> string \<Rightarrow> byte list \<Rightarrow> string \<Rightarrow> byte list outcome"
  tcpsocket_sendDNSQuery :: "nat \<Rightarrow> string \<Rightarrow> byte list \<Rightarrow> byte list outcome"
  getPlatformInfo :: "string outcome"
  readNameserversMac :: "string list option outcome"
  readNameserversWin :: "string list option outcome"
  IP_REGEX_test :: "string \<Rightarrow> bool"

subsection \<open>The state of a run\<close>

text \<open>
  The globals \<^verbatim>\<open>measurementID\<close>, \<^verbatim>\<open>dnsData\<close> and \<^verbatim>\<open>dnsAttempts\<close>, with the effects on the
  outside: the payloads given to \<^verbatim>\<open>submitPing\<close>, the resolution calls issued and the
  number of calls of \<^verbatim>\<open>Math.random\<close>, all in order.
\<close>

record state =
  measurementID :: string
  dnsData :: "string \<Rightarrow> response option"
  dnsAttempts :: "string \<Rightarrow> jsnum option"
  pings :: "payload list"
  calls :: "call list"
  randoms :: nat

text \<open>The globals as the file initialises them: \<^verbatim>\<open>var dnsData = {}; var dnsAttempts = {};\<close>\<close>

definition init_state :: "string \<Rightarrow> state" where
  "init_state uuid =
     \<lparr>measurementID = uuid, dnsData = Map.empty, dnsAttempts = Map.empty,
      pings = [], calls = [], randoms = 0\<rparr>"

text \<open>How a function ends: it returns, or it throws \<^verbatim>\<open>new Error(message)\<close>.\<close>

datatype completion = Returned | Threw string

definition random_floor :: "world \<Rightarrow> nat \<Rightarrow> state \<Rightarrow> nat \<times> state" where
  "random_floor w n s = (Math_random w (randoms s) n mod n, s\<lparr>randoms := Suc (randoms s)\<rparr>)"

definition sendTelemetry :: "payload \<Rightarrow> state \<Rightarrow> state" where
  "sendTelemetry p s =
     s\<lparr>pings := pings s @ [set_prop p ''measurementID'' (JStr (measurementID s))]\<rparr>"

subsection \<open>The packet encoders\<close>

text \<open>
  \<^verbatim>\<open>encodeUDPQuery\<close> up to the call of the library: the object it builds, for the
  transaction id it drew. The two \<^verbatim>\<open>if\<close> statements run in the order of the source, so
  \<^verbatim>\<open>dnssec_ok\<close> replaces whatever \<^verbatim>\<open>noedns0\<close> chose for \<^verbatim>\<open>additionals\<close>.
\<close>

definition udp_packet ::
  "world \<Rightarrow> nat \<Rightarrow> string \<Rightarrow> string \<Rightarrow> bool \<Rightarrow> bool \<Rightarrow> bool \<Rightarrow> packet" where
  "udp_packet w txid domain rrtype' dnssec_ok' checking_disabled' noedns0' =
     (let flags = RECURSION_DESIRED w;
          questions = [\<lparr>q_type = rrtype', q_name = domain\<rparr>];
          additionals =
            (if noedns0' then []
             else [\<lparr>a_type = ''OPT'', a_name = ''.'',
                    a_udpPayloadSize = Some UDP_PAYLOAD_SIZE, a_flags = None\<rparr>]);
          flags = (if checking_disabled' then flags OR CHECKING_DISABLED w else flags);
          additionals =
            (if dnssec_ok'
             then [\<lparr>a_type = ''OPT'', a_name = ''.'',
                    a_udpPayloadSize = Some UDP_PAYLOAD_SIZE, a_flags = Some (DNSSEC_OK w)\<rparr>]
             else additionals)
      in \<lparr>p_type = ''query'', p_id = txid, p_flags = flags, p_questions = questions,
          p_additionals = Some additionals\<rparr>)"

definition encodeUDPQuery ::
  "world \<Rightarrow> string \<Rightarrow> string \<Rightarrow> bool \<Rightarrow> bool \<Rightarrow> bool \<Rightarrow> state \<Rightarrow> byte list option \<times> state" where
  "encodeUDPQuery w domain rrtype' dnssec_ok' checking_disabled' noedns0' s =
     (let (r, s1) = random_floor w (MAX_TXID - MIN_TXID + 1) s;
          txid = r + MIN_TXID
      in (DNS_PACKET_encode w
            (udp_packet w txid domain rrtype' dnssec_ok' checking_disabled' noedns0'), s1))"

definition tcp_packet :: "world \<Rightarrow> nat \<Rightarrow> string \<Rightarrow> string \<Rightarrow> bool \<Rightarrow> bool \<Rightarrow> packet" where
  "tcp_packet w txid domain rrtype' dnssec_ok' checking_disabled' =
     (let flags = RECURSION_DESIRED w;
          questions = [\<lparr>q_type = rrtype', q_name = domain\<rparr>];
          additionals = None;
          flags = (if checking_disabled' then flags OR CHECKING_DISABLED w else flags);
          additionals =
            (if dnssec_ok'
             then Some [\<lparr>a_type = ''OPT'', a_name = ''.'',
                         a_udpPayloadSize = None, a_flags = Some (DNSSEC_OK w)\<rparr>]
             else additionals)
      in \<lparr>p_type = ''query'', p_id = txid, p_flags = flags, p_questions = questions,
          p_additionals = additionals\<rparr>)"

definition encodeTCPQuery ::
  "world \<Rightarrow> string \<Rightarrow> string \<Rightarrow> bool \<Rightarrow> bool \<Rightarrow> state \<Rightarrow> byte list option \<times> state" where
  "encodeTCPQuery w domain rrtype' dnssec_ok' checking_disabled' s =
     (let (r, s1) = random_floor w (MAX_TXID - MIN_TXID + 1) s;
          txid = r + MIN_TXID
      in (DNS_PACKET_streamEncode w
            (tcp_packet w txid domain rrtype' dnssec_ok' checking_disabled'), s1))"

subsection \<open>The WebExtensions baseline\<close>

text \<open>
  \<^verbatim>\<open>sendUDPWebExtQuery\<close>. The guard of the store is \<^verbatim>\<open>!dnsData[key] == 0\<close>: the negation
  binds first, and its boolean is compared with the number 0.
\<close>

definition sendUDPWebExtQuery :: "world \<Rightarrow> string \<Rightarrow> state \<Rightarrow> completion \<times> state" where
  "sendUDPWebExtQuery w domain s =
     (let key = ''udpAWebExt'';
          flags = [''bypass_cache'', ''disable_ipv6'', ''disable_trr''];
          s1 = s\<lparr>dnsAttempts := (dnsAttempts s)(key \<mapsto> plus_one (dnsAttempts s key))\<rparr>;
          s2 = s1\<lparr>calls := calls s1 @ [ResolveCall domain flags]\<rparr>
      in case dns_resolve w (length (calls s1)) domain flags of
           Resolved addresses \<Rightarrow>
             (Returned,
              if bool_to_number (\<not> truthy (dnsData s2 key)) = 0
              then s2\<lparr>dnsData := (dnsData s2)(key \<mapsto> Addresses addresses)\<rparr>
              else s2)
         | Rejected e \<Rightarrow>
             (Returned,
              sendTelemetry
                [(''reason'', JStr STUDY_ERROR_UDP_WEBEXT),
                 (''errorRRTYPE'', JStr key),
                 (''errorAttempt'', num_val (dnsAttempts s2 key))] s2))"

subsection \<open>The UDP path\<close>

text \<open>
  The inner loop of \<^verbatim>\<open>sendUDPQuery\<close>, over the nameservers. The flag of the result is
  \<open>True\<close> when the loop left the function by \<^verbatim>\<open>return\<close>.
\<close>

fun udp_sweep ::
  "world \<Rightarrow> string \<Rightarrow> byte list \<Rightarrow> string \<Rightarrow> string list \<Rightarrow> state \<Rightarrow> bool \<times> state" where
  "udp_sweep w key queryBuf rrtype' [] s = (False, s)"
| "udp_sweep w key queryBuf rrtype' (nameserver # rest) s =
     (let s1 = s\<lparr>dnsAttempts := (dnsAttempts s)(key \<mapsto> plus_one (dnsAttempts s key))\<rparr>;
          s2 = s1\<lparr>calls := calls s1 @ [UDPCall nameserver queryBuf rrtype']\<rparr>
      in case udpsocket_sendDNSQuery w (length (calls s1)) nameserver queryBuf rrtype' of
           Resolved responseBytes \<Rightarrow>
             (True,
              if \<not> truthy (dnsData s2 key)
              then s2\<lparr>dnsData := (dnsData s2)(key \<mapsto> Bytes responseBytes)\<rparr>
              else s2)
         | Rejected message \<Rightarrow>
             (let errorReason =
                    (if startsWith message ''STUDY_ERROR_UDP'' then message
                     else STUDY_ERROR_UDP_MISC)
              in udp_sweep w key queryBuf rrtype' rest
                   (sendTelemetry
                      [(''reason'', JStr errorReason),
                       (''errorRRTYPE'', JStr key),
                       (''errorAttempt'', num_val (dnsAttempts s2 key))] s2)))"

text \<open>The outer loop, \<^verbatim>\<open>for (let i = 1; i <= RESOLVCONF_ATTEMPTS; i++)\<close>, by the passes left.\<close>

fun udp_passes ::
  "world \<Rightarrow> string \<Rightarrow> byte list \<Rightarrow> string \<Rightarrow> string list \<Rightarrow> nat \<Rightarrow> state \<Rightarrow> state" where
  "udp_passes w key queryBuf rrtype' nameservers 0 s = s"
| "udp_passes w key queryBuf rrtype' nameservers (Suc n) s =
     (case udp_sweep w key queryBuf rrtype' nameservers s of
        (True, s') \<Rightarrow> s'
      | (False, s') \<Rightarrow> udp_passes w key queryBuf rrtype' nameservers n s')"

definition sendUDPQuery ::
  "world \<Rightarrow> string \<Rightarrow> string \<Rightarrow> query \<Rightarrow> string list \<Rightarrow> state \<Rightarrow> completion \<times> state" where
  "sendUDPQuery w key domain query' nameservers s =
     (case encodeUDPQuery w domain (rrtype query') (dnssec_ok query')
             (checking_disabled query') (noedns0 query') s of
        (None, s1) \<Rightarrow>
          (Threw STUDY_ERROR_UDP_ENCODE,
           sendTelemetry [(''reason'', JStr STUDY_ERROR_UDP_ENCODE)] s1)
      | (Some queryBuf, s1) \<Rightarrow>
          (Returned,
           udp_passes w key queryBuf (rrtype query') nameservers RESOLVCONF_ATTEMPTS s1))"

subsection \<open>The TCP path\<close>

text \<open>The loop of \<^verbatim>\<open>sendTCPQuery\<close>: one pass, the counter set to 0 first when it is falsy.\<close>

fun tcp_sweep ::
  "world \<Rightarrow> string \<Rightarrow> byte list \<Rightarrow> string list \<Rightarrow> state \<Rightarrow> state" where
  "tcp_sweep w key queryBuf [] s = s"
| "tcp_sweep w key queryBuf (nameserver # rest) s =
     (let s0 = (if \<not> truthy_num (dnsAttempts s key)
                then s\<lparr>dnsAttempts := (dnsAttempts s)(key \<mapsto> Num 0)\<rparr> else s);
          s1 = s0\<lparr>dnsAttempts := (dnsAttempts s0)(key \<mapsto> plus_one (dnsAttempts s0 key))\<rparr>;
          s2 = s1\<lparr>calls := calls s1 @ [TCPCall nameserver queryBuf]\<rparr>
      in case tcpsocket_sendDNSQuery w (length (calls s1)) nameserver queryBuf of
           Resolved responseBytes \<Rightarrow>
             (if \<not> truthy (dnsData s2 key)
              then s2\<lparr>dnsData := (dnsData s2)(key \<mapsto> Bytes responseBytes)\<rparr>
              else s2)
         | Rejected message \<Rightarrow>
             (let errorReason =
                    (if startsWith message ''STUDY_ERROR_TCP'' then message
                     else STUDY_ERROR_TCP_MISC)
              in tcp_sweep w key queryBuf rest
                   (sendTelemetry
                      [(''reason'', JStr errorReason),
                       (''errorRRTYPE'', JStr key),
                       (''errorAttempt'', num_val (dnsAttempts s2 key))] s2)))"

text \<open>
  The buffer of \<^verbatim>\<open>sendTCPQuery\<close>: the destructuring of \<^verbatim>\<open>query\<close> takes \<^verbatim>\<open>rrtype\<close>,
  \<^verbatim>\<open>dnssec_ok\<close> and \<^verbatim>\<open>checking_disabled\<close>, and the encoder gets these with the domain.
\<close>

definition tcp_queryBuf :: "world \<Rightarrow> string \<Rightarrow> query \<Rightarrow> state \<Rightarrow> byte list option \<times> state" where
  "tcp_queryBuf w domain query' s =
     encodeTCPQuery w domain (rrtype query') (dnssec_ok query') (checking_disabled query') s"

definition sendTCPQuery ::
  "world \<Rightarrow> string \<Rightarrow> string \<Rightarrow> query \<Rightarrow> string list \<Rightarrow> state \<Rightarrow> completion \<times> state" where
  "sendTCPQuery w key domain query' nameservers s =
     (case tcp_queryBuf w domain query' s of
        (None, s1) \<Rightarrow>
          (Threw STUDY_ERROR_TCP_ENCODE,
           sendTelemetry [(''reason'', JStr STUDY_ERROR_TCP_ENCODE)] s1)
      | (Some queryBuf, s1) \<Rightarrow> (Returned, tcp_sweep w key queryBuf nameservers s1))"

subsection \<open>The work list\<close>

text \<open>
  \<^verbatim>\<open>shuffleArray\<close>: the loop counts \<^verbatim>\<open>currentIndex\<close> down to 0; each round draws
  \<^verbatim>\<open>randomIndex\<close> below the current index, decrements and swaps the two places.
\<close>

fun shuffle_loop :: "world \<Rightarrow> nat \<Rightarrow> 'a list \<Rightarrow> state \<Rightarrow> 'a list \<times> state" where
  "shuffle_loop w 0 array s = (array, s)"
| "shuffle_loop w (Suc currentIndex) array s =
     (let (randomIndex, s1) = random_floor w (Suc currentIndex) s
      in shuffle_loop w currentIndex
           (array[currentIndex := array ! randomIndex, randomIndex := array ! currentIndex]) s1)"

definition shuffleArray :: "world \<Rightarrow> 'a list \<Rightarrow> state \<Rightarrow> 'a list \<times> state" where
  "shuffleArray w array s = shuffle_loop w (length array) array s"

text \<open>
  An element of \<^verbatim>\<open>queries\<close> is a closure over a send function and its arguments, the
  nameservers apart, which are the same for all.
\<close>

datatype work =
    WebExtItem string
  | UDPItem string string query
  | TCPItem string string query

text \<open>The four closures that the body of the loop over \<^verbatim>\<open>COMMON_QUERIES\<close> pushes.\<close>

definition query_items :: "query \<Rightarrow> work list" where
  "query_items query' =
     (let queryName = prefix query' @ APEX_DOMAIN_NAME;
          keyU = computeKey ''udp'' query' True;
          queryNameU = prefix query' @ keyU @ ''.'' @ PER_CLIENT_PREFIX @ APEX_DOMAIN_NAME;
          keyT = computeKey ''tcp'' query' True;
          queryNameT = prefix query' @ keyU @ ''.'' @ PER_CLIENT_PREFIX @ APEX_DOMAIN_NAME
      in [UDPItem (computeKey ''udp'' query' False) queryName query',
          TCPItem (computeKey ''tcp'' query' False) queryName query',
          UDPItem keyU queryNameU query',
          TCPItem keyT queryNameT query'])"

definition work_list :: "work list" where
  "work_list = WebExtItem APEX_DOMAIN_NAME # concat (map query_items COMMON_QUERIES)"

fun run_item :: "world \<Rightarrow> string list \<Rightarrow> work \<Rightarrow> state \<Rightarrow> completion \<times> state" where
  "run_item w nameservers (WebExtItem domain) s = sendUDPWebExtQuery w domain s"
| "run_item w nameservers (UDPItem key domain query') s =
     sendUDPQuery w key domain query' nameservers s"
| "run_item w nameservers (TCPItem key domain query') s =
     sendTCPQuery w key domain query' nameservers s"

text \<open>
  \<^verbatim>\<open>for (let sendQuery of queries) { await sendQuery(); }\<close>: there is no \<^verbatim>\<open>try\<close> around
  the call, so an exception of an item ends the loop and leaves \<^verbatim>\<open>sendQueries\<close>.
\<close>

fun run_all :: "world \<Rightarrow> string list \<Rightarrow> work list \<Rightarrow> state \<Rightarrow> completion \<times> state" where
  "run_all w nameservers [] s = (Returned, s)"
| "run_all w nameservers (sendQuery # rest) s =
     (case run_item w nameservers sendQuery s of
        (Returned, s') \<Rightarrow> run_all w nameservers rest s'
      | (Threw e, s') \<Rightarrow> (Threw e, s'))"

definition sendQueries :: "world \<Rightarrow> string list \<Rightarrow> state \<Rightarrow> completion \<times> state" where
  "sendQueries w nameservers_ipv4 s =
     (let (queries, s1) = shuffleArray w work_list s
      in run_all w nameservers_ipv4 queries s1)"

subsection \<open>Reading the nameservers\<close>

text \<open>The validity loop of \<^verbatim>\<open>readNameservers\<close>: the first invalid address reports and throws.\<close>

fun check_nameservers :: "world \<Rightarrow> string list \<Rightarrow> state \<Rightarrow> completion \<times> state" where
  "check_nameservers w [] s = (Returned, s)"
| "check_nameservers w (nameserver # rest) s =
     (if \<not> IP_REGEX_test w nameserver
      then (Threw STUDY_ERROR_NAMESERVERS_INVALID_ADDR,
            sendTelemetry [(''reason'', JStr STUDY_ERROR_NAMESERVERS_INVALID_ADDR)] s)
      else check_nameservers w rest s)"

text \<open>
  The \<^verbatim>\<open>try\<close> block of \<^verbatim>\<open>readNameservers\<close>: what it assigns to \<^verbatim>\<open>nameservers\<close>, or the
  message of the exception that reaches the \<^verbatim>\<open>catch\<close>, with the state at that point.
\<close>

definition read_platform :: "world \<Rightarrow> state \<Rightarrow> (string + string list option) \<times> state" where
  "read_platform w s =
     (case getPlatformInfo w of
        Rejected e \<Rightarrow> (Inl e, s)
      | Resolved os \<Rightarrow>
          (if os = ''mac'' then
             (case readNameserversMac w of
                Rejected e \<Rightarrow> (Inl e, s) | Resolved ns \<Rightarrow> (Inr ns, s))
           else if os = ''win'' then
             (case readNameserversWin w of
                Rejected e \<Rightarrow> (Inl e, s) | Resolved ns \<Rightarrow> (Inr ns, s))
           else (Inl STUDY_ERROR_NAMESERVERS_OS_NOT_SUPPORTED,
                 sendTelemetry
                   [(''reason'', JStr STUDY_ERROR_NAMESERVERS_OS_NOT_SUPPORTED)] s)))"

definition readNameservers :: "world \<Rightarrow> state \<Rightarrow> (string + string list) \<times> state" where
  "readNameservers w s =
     (case read_platform w s of
        (Inl message, s1) \<Rightarrow>
          (let errorReason =
                 (if startsWith message ''STUDY_ERROR_NAMESERVERS'' then message
                  else STUDY_ERROR_NAMESERVERS_MISC)
           in (Inl errorReason, sendTelemetry [(''reason'', JStr errorReason)] s1))
      | (Inr nameservers, s1) \<Rightarrow>
          (case nameservers of
             None \<Rightarrow>
               (Inl STUDY_ERROR_NAMESERVERS_NOT_FOUND,
                sendTelemetry [(''reason'', JStr STUDY_ERROR_NAMESERVERS_NOT_FOUND)] s1)
           | Some ns \<Rightarrow>
               (if length ns = 0
                then (Inl STUDY_ERROR_NAMESERVERS_NOT_FOUND,
                      sendTelemetry [(''reason'', JStr STUDY_ERROR_NAMESERVERS_NOT_FOUND)] s1)
                else (case check_nameservers w ns s1 of
                        (Threw e, s2) \<Rightarrow> (Inl e, s2)
                      | (Returned, s2) \<Rightarrow> (Inr ns, s2)))))"

subsection \<open>The measurement\<close>

text \<open>
  \<^verbatim>\<open>runMeasurement(details)\<close>, by \<^verbatim>\<open>details.status\<close>. The body of \<^verbatim>\<open>fetchTest\<close> is commented
  out in the source, so its two calls do nothing. The last payload starts as
  \<^verbatim>\<open>{reason: STUDY_MEASUREMENT_COMPLETED}\<close> and gets \<^verbatim>\<open>dnsData\<close> and \<^verbatim>\<open>dnsAttempts\<close>.
\<close>

definition completed_payload :: "state \<Rightarrow> payload" where
  "completed_payload s =
     set_prop
       (set_prop [(''reason'', JStr STUDY_MEASUREMENT_COMPLETED)]
          ''dnsData'' (JData (dnsData s)))
       ''dnsAttempts'' (JAttempts (dnsAttempts s))"

definition runMeasurement :: "world \<Rightarrow> string \<Rightarrow> state \<Rightarrow> completion \<times> state" where
  "runMeasurement w captiveStatus s =
     (if captiveStatus \<noteq> ''unlocked_portal'' \<and> captiveStatus \<noteq> ''not_captive''
         \<and> captiveStatus \<noteq> ''clear''
      then (Threw STUDY_ERROR_CAPTIVE_PORTAL_FAILED,
            sendTelemetry [(''reason'', JStr STUDY_ERROR_CAPTIVE_PORTAL_FAILED)] s)
      else
        (let s1 = sendTelemetry [(''reason'', JStr STUDY_START)] s
         in case readNameservers w s1 of
              (Inl e, s2) \<Rightarrow> (Threw e, s2)
            | (Inr nameservers_ipv4, s2) \<Rightarrow>
                (case sendQueries w nameservers_ipv4 s2 of
                   (Threw e, s3) \<Rightarrow> (Threw e, s3)
                 | (Returned, s3) \<Rightarrow>
                     (Returned, sendTelemetry (completed_payload s3) s3))))"

subsection \<open>Encoding failures\<close>

text \<open>
  Two auxiliary notions for stating what happens when an encoder throws: whether the
  encoder call of a work item fails in a given state, and the reason that the \<^verbatim>\<open>catch\<close>
  block of its send function then reports and throws (none for the baseline item, which
  encodes nothing).
\<close>

fun encode_fails :: "world \<Rightarrow> work \<Rightarrow> state \<Rightarrow> bool" where
  "encode_fails w (WebExtItem domain) s = False"
| "encode_fails w (UDPItem key domain query') s =
     (fst (encodeUDPQuery w domain (rrtype query') (dnssec_ok query')
             (checking_disabled query') (noedns0 query') s) = None)"
| "encode_fails w (TCPItem key domain query') s = (fst (tcp_queryBuf w domain query' s) = None)"

fun encode_error :: "work \<Rightarrow> string" where
  "encode_error (WebExtItem domain) = []"
| "encode_error (UDPItem key domain query') = STUDY_ERROR_UDP_ENCODE"
| "encode_error (TCPItem key domain query') = STUDY_ERROR_TCP_ENCODE"

subsection \<open>A test environment\<close>

text \<open>
  The environment of the closed examples, after the fixtures of the repository's tests: a
  Windows host with the nameservers 172.19.134.11 and 172.19.134.12, a resolver that
  answers 34.120.4.181, sockets that answer the bytes 1, 2, 3, except that the UDP socket
  rejects every query sent to the first nameserver. The UDP encoder refuses the record
  types listed in \<open>unsupported\<close>; otherwise the encoders return one byte for each question,
  the length of its name. Every draw of \<^verbatim>\<open>Math.floor(Math.random() * n)\<close> is \<open>n - 1\<close>, so the
  shuffle leaves the work list in the order it was built in.
\<close>

definition demo_bytes :: "packet \<Rightarrow> byte list" where
  "demo_bytes p = map (\<lambda>q. word_of_nat (length (q_name q))) (p_questions p)"

definition demo_encode :: "string list \<Rightarrow> packet \<Rightarrow> byte list option" where
  "demo_encode unsupported p =
     (if filter (\<lambda>q. q_type q \<in> set unsupported) (p_questions p) = []
      then Some (demo_bytes p) else None)"

definition demo_world :: "string list \<Rightarrow> world" where
  "demo_world unsupported =
     \<lparr>RECURSION_DESIRED = 256, CHECKING_DISABLED = 16, DNSSEC_OK = 32768,
      DNS_PACKET_encode = demo_encode unsupported,
      DNS_PACKET_streamEncode = (\<lambda>p. Some (demo_bytes p)),
      Math_random = (\<lambda>k n. n - 1),
      dns_resolve = (\<lambda>t domain flags. Resolved [''34.120.4.181'']),
      udpsocket_sendDNSQuery =
        (\<lambda>t nameserver buf rr.
           if nameserver = ''172.19.134.11'' then Rejected ''NS_ERROR_NET_TIMEOUT''
           else Resolved [1, 2, 3]),
      tcpsocket_sendDNSQuery = (\<lambda>t nameserver buf. Resolved [1, 2, 3]),
      getPlatformInfo = Resolved ''win'',
      readNameserversMac = Rejected ''not a mac'',
      readNameserversWin = Resolved (Some [''172.19.134.11'', ''172.19.134.12'']),
      IP_REGEX_test = (\<lambda>a. True)\<rparr>"

text \<open>
  The nameservers of the test environment, and the state that a run in it reaches, when
  the UDP encoder refuses HTTPS, after the first five work items: the baseline item and
  the four items of the SMIMEA entry.
\<close>

definition demo_nameservers :: "string list" where
  "demo_nameservers = [''172.19.134.11'', ''172.19.134.12'']"

definition demo_state_before_https :: state where
  "demo_state_before_https =
     \<lparr>measurementID = ''u'',
      dnsData = [''udpSMIMEA'' \<mapsto> Bytes [1, 2, 3], ''tcpSMIMEA'' \<mapsto> Bytes [1, 2, 3],
                 ''udpSMIMEA-U'' \<mapsto> Bytes [1, 2, 3], ''tcpSMIMEA-U'' \<mapsto> Bytes [1, 2, 3]],
      dnsAttempts = [''udpAWebExt'' \<mapsto> NaN, ''udpSMIMEA'' \<mapsto> NaN, ''tcpSMIMEA'' \<mapsto> Num 1,
                     ''udpSMIMEA-U'' \<mapsto> NaN, ''tcpSMIMEA-U'' \<mapsto> Num 1],
      pings =
        [[(''reason'', JStr ''STUDY_START''), (''measurementID'', JStr ''u'')],
         [(''reason'', JStr ''STUDY_ERROR_UDP_MISC''), (''errorRRTYPE'', JStr ''udpSMIMEA''),
          (''errorAttempt'', JNum NaN), (''measurementID'', JStr ''u'')],
         [(''reason'', JStr ''STUDY_ERROR_UDP_MISC''), (''errorRRTYPE'', JStr ''udpSMIMEA-U''),
          (''errorAttempt'', JNum NaN), (''measurementID'', JStr ''u'')]],
      calls =
        [ResolveCall ''dnssec-experiment-moz.net''
           [''bypass_cache'', ''disable_ipv6'', ''disable_trr''],
         UDPCall ''172.19.134.11'' [82] ''SMIMEA'',
         UDPCall ''172.19.134.12'' [82] ''SMIMEA'',
         TCPCall ''172.19.134.11'' [82],
         UDPCall ''172.19.134.11'' [97] ''SMIMEA'',
         UDPCall ''172.19.134.12'' [97] ''SMIMEA'',
         TCPCall ''172.19.134.11'' [97]],
      randoms = 57\<rparr>"

section \<open>Keys\<close>


text \<open>
  Claim C5, as amended. \<^verbatim>\<open>computeKey\<close> is a function of its three arguments: the
  transport token followed by the rrtype token, then \<^verbatim>\<open>DO\<close> when \<^verbatim>\<open>dnssec_ok\<close>, \<^verbatim>\<open>CD\<close> when
  \<^verbatim>\<open>checking_disabled\<close>, \<^verbatim>\<open>-U\<close> when per-client and \<^verbatim>\<open>-N\<close> when \<^verbatim>\<open>noedns0\<close>, in this order
  and with no separator between transport and rrtype. On the five example inputs it
  returns \<^verbatim>\<open>tcpA\<close>, \<^verbatim>\<open>tcpA-U\<close>, \<^verbatim>\<open>udpADO\<close>, \<^verbatim>\<open>udpACD\<close> and \<^verbatim>\<open>udpA-U-N\<close>.
\<close>

theorem computeKey_suffix_order:
  "computeKey transport args perClient =
     transport @ rrtype args
       @ (if dnssec_ok args then ''DO'' else '''')
       @ (if checking_disabled args then ''CD'' else '''')
       @ (if perClient then ''-U'' else '''')
       @ (if noedns0 args then ''-N'' else '''')
   \<and> computeKey ''tcp'' (mk_query ''A'' '''' False False False) False = ''tcpA''
   \<and> computeKey ''tcp'' (mk_query ''A'' '''' False False False) True = ''tcpA-U''
   \<and> computeKey ''udp'' (mk_query ''A'' '''' True False False) False = ''udpADO''
   \<and> computeKey ''udp'' (mk_query ''A'' '''' False True False) False = ''udpACD''
   \<and> computeKey ''udp'' (mk_query ''A'' '''' False False True) True = ''udpA-U-N''"
  by (simp add: computeKey_def mk_query_def)

text \<open>
  The examples as the claim gives them, with a hyphen after the transport and \<^verbatim>\<open>-N\<close> before
  \<^verbatim>\<open>-U\<close>, are not what the function returns.
\<close>

theorem computeKey_examples_counterexample:
  "computeKey ''tcp'' (mk_query ''A'' '''' False False False) False \<noteq> ''tcp-A''
   \<and> computeKey ''tcp'' (mk_query ''A'' '''' False False False) True \<noteq> ''tcp-A-U''
   \<and> computeKey ''udp'' (mk_query ''A'' '''' True False False) False \<noteq> ''udp-ADO''
   \<and> computeKey ''udp'' (mk_query ''A'' '''' False True False) False \<noteq> ''udp-ACD''
   \<and> computeKey ''udp'' (mk_query ''A'' '''' False False True) True \<noteq> ''udp-A-N-U''"
  by (simp add: computeKey_def mk_query_def)



section \<open>Packets\<close>





section \<open>The work list\<close>

text \<open>
  Claim C6, on the code. The fourth closure pushed for a catalog entry is the per-client
  TCP item: its key is the TCP key \<^verbatim>\<open>keyT\<close>, but its domain \<^verbatim>\<open>queryNameT\<close> is built from the UDP
  key \<^verbatim>\<open>keyU\<close>, which is never the domain built from the item's own key. For the plain A
  entry the item queries \<^verbatim>\<open>udpA-U.pc.dnssec-experiment-moz.net\<close> under the key \<^verbatim>\<open>tcpA-U\<close>.
\<close>

theorem per_client_tcp_domain_embeds_udp_key:
  "query_items query' ! 3 =
     TCPItem (computeKey ''tcp'' query' True)
       (prefix query' @ computeKey ''udp'' query' True @ ''.'' @ PER_CLIENT_PREFIX @ APEX_DOMAIN_NAME)
       query'
   \<and> prefix query' @ computeKey ''udp'' query' True @ ''.'' @ PER_CLIENT_PREFIX @ APEX_DOMAIN_NAME
       \<noteq> prefix query' @ computeKey ''tcp'' query' True @ ''.'' @ PER_CLIENT_PREFIX @ APEX_DOMAIN_NAME
   \<and> query_items (COMMON_QUERIES ! 2) ! 3 =
       TCPItem ''tcpA-U'' ''udpA-U.pc.dnssec-experiment-moz.net'' (COMMON_QUERIES ! 2)"
  by (simp add: query_items_def computeKey_def Let_def numeral_3_eq_3 COMMON_QUERIES_def
      mk_query_def PER_CLIENT_PREFIX_def APEX_DOMAIN_NAME_def)

section \<open>The test environment\<close>

lemma demo_fields:
  "DNS_PACKET_encode (demo_world x) = demo_encode x"
  "DNS_PACKET_streamEncode (demo_world x) = (\<lambda>p. Some (demo_bytes p))"
  "Math_random (demo_world x) = (\<lambda>k n. n - 1)"
  "dns_resolve (demo_world x) = (\<lambda>t domain flags. Resolved [''34.120.4.181''])"
  "udpsocket_sendDNSQuery (demo_world x) =
     (\<lambda>t nameserver buf rr.
        if nameserver = ''172.19.134.11'' then Rejected ''NS_ERROR_NET_TIMEOUT''
        else Resolved [1, 2, 3])"
  "tcpsocket_sendDNSQuery (demo_world x) = (\<lambda>t nameserver buf. Resolved [1, 2, 3])"
  "getPlatformInfo (demo_world x) = Resolved ''win''"
  "readNameserversWin (demo_world x) = Resolved (Some [''172.19.134.11'', ''172.19.134.12''])"
  "IP_REGEX_test (demo_world x) = (\<lambda>a. True)"
  by (simp_all add: demo_world_def)

lemma demo_random_floor:
  "0 < n \<Longrightarrow> random_floor (demo_world x) n s = (n - 1, s\<lparr>randoms := Suc (randoms s)\<rparr>)"
  by (simp add: random_floor_def demo_fields)

lemma demo_encodeUDPQuery:
  "encodeUDPQuery (demo_world x) domain rr do cd ne s =
     (if rr \<in> set x then None else Some [word_of_nat (length domain)],
      s\<lparr>randoms := Suc (randoms s)\<rparr>)"
  by (simp add: encodeUDPQuery_def demo_random_floor MAX_TXID_def MIN_TXID_def
      udp_packet_def Let_def demo_fields demo_encode_def demo_bytes_def)

lemma demo_tcp_queryBuf:
  "tcp_queryBuf (demo_world x) domain q s =
     (Some [word_of_nat (length domain)], s\<lparr>randoms := Suc (randoms s)\<rparr>)"
  by (simp add: tcp_queryBuf_def encodeTCPQuery_def demo_random_floor MAX_TXID_def MIN_TXID_def
      tcp_packet_def Let_def demo_fields demo_bytes_def)

lemma demo_readNameservers:
  "readNameservers (demo_world x) s = (Inr [''172.19.134.11'', ''172.19.134.12''], s)"
  by (simp add: readNameservers_def read_platform_def demo_fields)

section \<open>The retry loops\<close>

lemma udp_passes_two:
  "udp_passes w key buf rr ns RESOLVCONF_ATTEMPTS s =
     (case udp_sweep w key buf rr ns s of
        (True, s') \<Rightarrow> s'
      | (False, s') \<Rightarrow> snd (udp_sweep w key buf rr ns s'))"
  by (simp add: RESOLVCONF_ATTEMPTS_def numeral_2_eq_2 split: prod.splits bool.splits)

text \<open>One round of the UDP loop, by the answer of the socket.\<close>

lemma udp_sweep_Resolved:
  assumes "udpsocket_sendDNSQuery w (length (calls s)) n buf rr = Resolved bs"
  shows "udp_sweep w key buf rr (n # ns) s =
     (True,
      s\<lparr>dnsAttempts := (dnsAttempts s)(key \<mapsto> plus_one (dnsAttempts s key)),
        calls := calls s @ [UDPCall n buf rr],
        dnsData := (if dnsData s key = None then (dnsData s)(key \<mapsto> Bytes bs)
                    else dnsData s)\<rparr>)"
  using assms by (simp add: Let_def truthy_def)

lemma udp_sweep_Rejected:
  assumes "udpsocket_sendDNSQuery w (length (calls s)) n buf rr = Rejected m"
  obtains s' where "udp_sweep w key buf rr (n # ns) s = udp_sweep w key buf rr ns s'"
    and "calls s' = calls s @ [UDPCall n buf rr]"
    and "dnsData s' = dnsData s"
    and "dnsAttempts s' = (dnsAttempts s)(key \<mapsto> plus_one (dnsAttempts s key))"
    and "measurementID s' = measurementID s"
    and "length (pings s') = Suc (length (pings s))"
  using assms by (simp add: Let_def sendTelemetry_def)

text \<open>One round of the TCP loop, by the answer of the socket.\<close>

lemma tcp_sweep_Resolved:
  assumes "tcpsocket_sendDNSQuery w (length (calls s)) n buf = Resolved bs"
  shows "tcp_sweep w key buf (n # ns) s =
     s\<lparr>dnsAttempts :=
         (dnsAttempts s)(key \<mapsto>
            plus_one (if truthy_num (dnsAttempts s key) then dnsAttempts s key
                      else Some (Num 0))),
       calls := calls s @ [TCPCall n buf],
       dnsData := (if dnsData s key = None then (dnsData s)(key \<mapsto> Bytes bs)
                   else dnsData s)\<rparr>"
  using assms by (simp add: Let_def truthy_def)

lemma tcp_sweep_Rejected:
  assumes "tcpsocket_sendDNSQuery w (length (calls s)) n buf = Rejected m"
  obtains s' where "tcp_sweep w key buf (n # ns) s = tcp_sweep w key buf ns s'"
    and "calls s' = calls s @ [TCPCall n buf]"
    and "dnsData s' = dnsData s"
    and "dnsAttempts s' =
           (dnsAttempts s)(key \<mapsto>
              plus_one (if truthy_num (dnsAttempts s key) then dnsAttempts s key
                        else Some (Num 0)))"
    and "measurementID s' = measurementID s"
    and "length (pings s') = Suc (length (pings s))"
proof -
  let ?a = "plus_one (if truthy_num (dnsAttempts s key) then dnsAttempts s key
                      else Some (Num 0))"
  let ?s' = "sendTelemetry
      [(''reason'', JStr (if startsWith m ''STUDY_ERROR_TCP'' then m else STUDY_ERROR_TCP_MISC)),
       (''errorRRTYPE'', JStr key), (''errorAttempt'', num_val (Some ?a))]
      (s\<lparr>dnsAttempts := (dnsAttempts s)(key \<mapsto> ?a), calls := calls s @ [TCPCall n buf]\<rparr>)"
  have "tcp_sweep w key buf (n # ns) s = tcp_sweep w key buf ns ?s'"
    using assms by (cases "truthy_num (dnsAttempts s key)") (simp_all add: Let_def)
  moreover have "calls ?s' = calls s @ [TCPCall n buf]" by (simp add: sendTelemetry_def)
  moreover have "dnsData ?s' = dnsData s" by (simp add: sendTelemetry_def)
  moreover have "dnsAttempts ?s' = (dnsAttempts s)(key \<mapsto> ?a)" by (simp add: sendTelemetry_def)
  moreover have "measurementID ?s' = measurementID s" by (simp add: sendTelemetry_def)
  moreover have "length (pings ?s') = Suc (length (pings s))" by (simp add: sendTelemetry_def)
  ultimately show thesis by (rule that)
qed

text \<open>From here on the loops are unfolded by these rounds only.\<close>

declare udp_sweep.simps(2) [simp del]

declare tcp_sweep.simps(2) [simp del]

text \<open>A pass issues at most one socket call for each nameserver, and never removes one.\<close>

lemma udp_sweep_calls_le:
  "length (calls (snd (udp_sweep w key buf rr ns s))) \<le> length (calls s) + length ns"
proof (induction ns arbitrary: s)
  case Nil
  then show ?case by simp
next
  case (Cons n ns)
  show ?case
  proof (cases "udpsocket_sendDNSQuery w (length (calls s)) n buf rr")
    case (Resolved bs)
    then show ?thesis by (simp add: udp_sweep_Resolved)
  next
    case (Rejected m)
    then obtain s' where "udp_sweep w key buf rr (n # ns) s = udp_sweep w key buf rr ns s'"
      and "calls s' = calls s @ [UDPCall n buf rr]"
      by (rule udp_sweep_Rejected)
    with Cons.IH [of s'] show ?thesis by simp
  qed
qed

lemma udp_passes_calls_le:
  "length (calls (udp_passes w key buf rr ns n s)) \<le> length (calls s) + n * length ns"
proof (induction n arbitrary: s)
  case 0
  then show ?case by simp
next
  case (Suc n)
  obtain b s' where sw: "udp_sweep w key buf rr ns s = (b, s')"
    by (cases "udp_sweep w key buf rr ns s")
  with udp_sweep_calls_le [of w key buf rr ns s]
  have le: "length (calls s') \<le> length (calls s) + length ns" by simp
  show ?case
  proof (cases b)
    case True
    with sw le show ?thesis by simp
  next
    case False
    with sw le Suc.IH [of s'] show ?thesis by simp
  qed
qed

text \<open>A UDP work item issues at most two calls for each nameserver, a TCP item at most one.\<close>

lemma sendUDPQuery_calls_le:
  "length (calls (snd (sendUDPQuery w key domain q ns s))) \<le> length (calls s) + 2 * length ns"
proof (cases "encodeUDPQuery w domain (rrtype q) (dnssec_ok q) (checking_disabled q) (noedns0 q) s")
  case (Pair r s1)
  then have c: "calls s1 = calls s"
    by (auto simp: encodeUDPQuery_def random_floor_def Let_def)
  show ?thesis
  proof (cases r)
    case None
    with Pair c show ?thesis by (simp add: sendUDPQuery_def sendTelemetry_def)
  next
    case (Some buf)
    with Pair c udp_passes_calls_le [of w key buf "rrtype q" ns RESOLVCONF_ATTEMPTS s1]
    show ?thesis by (simp add: sendUDPQuery_def RESOLVCONF_ATTEMPTS_def)
  qed
qed

lemma tcp_sweep_calls_le:
  "length (calls (tcp_sweep w key buf ns s)) \<le> length (calls s) + length ns"
proof (induction ns arbitrary: s)
  case Nil
  then show ?case by simp
next
  case (Cons n ns)
  show ?case
  proof (cases "tcpsocket_sendDNSQuery w (length (calls s)) n buf")
    case (Resolved bs)
    then show ?thesis by (simp add: tcp_sweep_Resolved)
  next
    case (Rejected m)
    then obtain s' where "tcp_sweep w key buf (n # ns) s = tcp_sweep w key buf ns s'"
      and "calls s' = calls s @ [TCPCall n buf]"
      by (rule tcp_sweep_Rejected)
    with Cons.IH [of s'] show ?thesis by simp
  qed
qed

lemma tcp_sweep_calls_ge:
  "length (calls s) \<le> length (calls (tcp_sweep w key buf ns s))"
proof (induction ns arbitrary: s)
  case Nil
  then show ?case by simp
next
  case (Cons n ns)
  show ?case
  proof (cases "tcpsocket_sendDNSQuery w (length (calls s)) n buf")
    case (Resolved bs)
    then show ?thesis by (simp add: tcp_sweep_Resolved)
  next
    case (Rejected m)
    then obtain s' where "tcp_sweep w key buf (n # ns) s = tcp_sweep w key buf ns s'"
      and "calls s' = calls s @ [TCPCall n buf]"
      by (rule tcp_sweep_Rejected)
    with Cons.IH [of s'] show ?thesis by simp
  qed
qed

lemma sendTCPQuery_calls_le:
  "length (calls (snd (sendTCPQuery w key domain q ns s))) \<le> length (calls s) + length ns"
proof (cases "tcp_queryBuf w domain q s")
  case (Pair r s1)
  then have c: "calls s1 = calls s"
    by (auto simp: tcp_queryBuf_def encodeTCPQuery_def random_floor_def Let_def)
  show ?thesis
  proof (cases r)
    case None
    with Pair c show ?thesis by (simp add: sendTCPQuery_def sendTelemetry_def)
  next
    case (Some buf)
    with Pair c tcp_sweep_calls_le [of w key buf ns s1]
    show ?thesis by (simp add: sendTCPQuery_def)
  qed
qed

text \<open>
  On the TCP path the counter of a key that was unseen, or counted from 0 on, is the
  number of calls issued for it.
\<close>

lemma tcp_sweep_attempts:
  assumes "dnsAttempts s key = None \<or> (\<exists>c. 0 \<le> c \<and> dnsAttempts s key = Some (Num c))"
    and "ns \<noteq> []"
  shows "dnsAttempts (tcp_sweep w key buf ns s) key =
     Some (Num ((case dnsAttempts s key of Some (Num c) \<Rightarrow> c | _ \<Rightarrow> 0)
                + int (length (calls (tcp_sweep w key buf ns s)) - length (calls s))))"
  using assms
proof (induction ns arbitrary: s)
  case Nil
  then show ?case by simp
next
  case (Cons n ns)
  let ?c = "case dnsAttempts s key of Some (Num c) \<Rightarrow> c | _ \<Rightarrow> 0"
  have c0: "0 \<le> ?c" using Cons.prems(1) by auto
  have a0: "plus_one (if truthy_num (dnsAttempts s key) then dnsAttempts s key
                      else Some (Num 0)) = Num (?c + 1)"
    using Cons.prems(1) by auto
  show ?case
  proof (cases "tcpsocket_sendDNSQuery w (length (calls s)) n buf")
    case (Resolved bs)
    then show ?thesis using a0 by (simp add: tcp_sweep_Resolved)
  next
    case (Rejected m)
    then obtain s' where step: "tcp_sweep w key buf (n # ns) s = tcp_sweep w key buf ns s'"
      and cs: "calls s' = calls s @ [TCPCall n buf]"
      and at: "dnsAttempts s' =
           (dnsAttempts s)(key \<mapsto>
              plus_one (if truthy_num (dnsAttempts s key) then dnsAttempts s key
                        else Some (Num 0)))"
      by (rule tcp_sweep_Rejected)
    from at a0 have a3: "dnsAttempts s' key = Some (Num (?c + 1))" by simp
    show ?thesis
    proof (cases "ns = []")
      case True
      with step a3 cs show ?thesis by simp
    next
      case False
      have "dnsAttempts s' key = None \<or> (\<exists>c. 0 \<le> c \<and> dnsAttempts s' key = Some (Num c))"
        using a3 c0 by simp
      from Cons.IH [OF this False]
      have "dnsAttempts (tcp_sweep w key buf ns s') key =
          Some (Num (?c + 1 + int (length (calls (tcp_sweep w key buf ns s')) - length (calls s'))))"
        using a3 by simp
      moreover have "length (calls s') \<le> length (calls (tcp_sweep w key buf ns s'))"
        by (rule tcp_sweep_calls_ge)
      ultimately show ?thesis using step cs by (simp add: of_nat_diff)
    qed
  qed
qed

text \<open>
  On the UDP path the counter of an unseen key becomes \<^verbatim>\<open>NaN\<close> at the first attempt and
  stays so.
\<close>

lemma udp_sweep_attempts_NaN:
  assumes "dnsAttempts s key = None \<or> dnsAttempts s key = Some NaN" and "ns \<noteq> []"
  shows "dnsAttempts (snd (udp_sweep w key buf rr ns s)) key = Some NaN"
  using assms
proof (induction ns arbitrary: s)
  case Nil
  then show ?case by simp
next
  case (Cons n ns)
  have a0: "plus_one (dnsAttempts s key) = NaN" using Cons.prems(1) by auto
  show ?case
  proof (cases "udpsocket_sendDNSQuery w (length (calls s)) n buf rr")
    case (Resolved bs)
    then show ?thesis using a0 by (simp add: udp_sweep_Resolved)
  next
    case (Rejected m)
    then obtain s' where step: "udp_sweep w key buf rr (n # ns) s = udp_sweep w key buf rr ns s'"
      and at: "dnsAttempts s' = (dnsAttempts s)(key \<mapsto> plus_one (dnsAttempts s key))"
      by (rule udp_sweep_Rejected)
    from at a0 have a3: "dnsAttempts s' key = Some NaN" by simp
    show ?thesis
    proof (cases "ns = []")
      case True
      with step a3 show ?thesis by simp
    next
      case False
      with Cons.IH [of s'] a3 step show ?thesis by simp
    qed
  qed
qed

text \<open>
  First success wins on the socket paths: a pass never replaces a response that is
  stored, and never touches the data of another key.
\<close>

lemma udp_sweep_data_kept:
  "dnsData s key = Some v \<Longrightarrow> dnsData (snd (udp_sweep w key buf rr ns s)) key = Some v"
proof (induction ns arbitrary: s)
  case Nil
  then show ?case by simp
next
  case (Cons n ns)
  show ?case
  proof (cases "udpsocket_sendDNSQuery w (length (calls s)) n buf rr")
    case (Resolved bs)
    with Cons.prems show ?thesis by (simp add: udp_sweep_Resolved)
  next
    case (Rejected m)
    then obtain s' where "udp_sweep w key buf rr (n # ns) s = udp_sweep w key buf rr ns s'"
      and "dnsData s' = dnsData s"
      by (rule udp_sweep_Rejected)
    with Cons.IH [of s'] Cons.prems show ?thesis by simp
  qed
qed

lemma udp_sweep_data_other:
  "k \<noteq> key \<Longrightarrow> dnsData (snd (udp_sweep w key buf rr ns s)) k = dnsData s k"
proof (induction ns arbitrary: s)
  case Nil
  then show ?case by simp
next
  case (Cons n ns)
  show ?case
  proof (cases "udpsocket_sendDNSQuery w (length (calls s)) n buf rr")
    case (Resolved bs)
    with Cons.prems show ?thesis by (simp add: udp_sweep_Resolved)
  next
    case (Rejected m)
    then obtain s' where "udp_sweep w key buf rr (n # ns) s = udp_sweep w key buf rr ns s'"
      and "dnsData s' = dnsData s"
      by (rule udp_sweep_Rejected)
    with Cons.IH [of s'] Cons.prems show ?thesis by simp
  qed
qed

lemma tcp_sweep_data_kept:
  "dnsData s key = Some v \<Longrightarrow> dnsData (tcp_sweep w key buf ns s) key = Some v"
proof (induction ns arbitrary: s)
  case Nil
  then show ?case by simp
next
  case (Cons n ns)
  show ?case
  proof (cases "tcpsocket_sendDNSQuery w (length (calls s)) n buf")
    case (Resolved bs)
    with Cons.prems show ?thesis by (simp add: tcp_sweep_Resolved)
  next
    case (Rejected m)
    then obtain s' where "tcp_sweep w key buf (n # ns) s = tcp_sweep w key buf ns s'"
      and "dnsData s' = dnsData s"
      by (rule tcp_sweep_Rejected)
    with Cons.IH [of s'] Cons.prems show ?thesis by simp
  qed
qed

text \<open>
  The baseline path stores nothing for a key that has no data yet: the guard
  \<^verbatim>\<open>!dnsData[key] == 0\<close> is false exactly then.
\<close>

lemma sendUDPWebExtQuery_data:
  "dnsData s ''udpAWebExt'' = None \<Longrightarrow>
   dnsData (snd (sendUDPWebExtQuery w domain s)) = dnsData s"
  by (simp add: sendUDPWebExtQuery_def Let_def truthy_def bool_to_number_def sendTelemetry_def
      split: outcome.splits)

section \<open>The shuffle\<close>

lemma random_floor_less: "0 < n \<Longrightarrow> fst (random_floor w n s) < n"
  by (simp add: random_floor_def)

text \<open>Whatever is drawn, the shuffle permutes the work list.\<close>

lemma shuffle_loop_mset:
  "c \<le> length arr \<Longrightarrow> mset (fst (shuffle_loop w c arr s)) = mset arr"
proof (induction c arbitrary: arr s)
  case 0
  then show ?case by simp
next
  case (Suc c)
  obtain r s1 where rs: "random_floor w (Suc c) s = (r, s1)" by (cases "random_floor w (Suc c) s")
  with random_floor_less [of "Suc c" w s] have "r < Suc c" by simp
  with Suc.prems have r: "r < length arr" and c: "c < length arr" by simp_all
  have "mset (arr[c := arr ! r, r := arr ! c]) = mset arr"
    using r c by (simp add: mset_swap)
  moreover have "c \<le> length (arr[c := arr ! r, r := arr ! c])" using c by simp
  ultimately show ?case using rs Suc.IH by simp
qed

lemma shuffleArray_mset: "mset (fst (shuffleArray w arr s)) = mset arr"
  by (simp add: shuffleArray_def shuffle_loop_mset)

text \<open>When every draw is the top index, each round swaps a place with itself.\<close>

lemma shuffle_loop_top:
  assumes "\<And>k n. Math_random w k n = n - 1"
  shows "shuffle_loop w c arr s = (arr, s\<lparr>randoms := randoms s + c\<rparr>)"
proof (induction c arbitrary: s)
  case 0
  then show ?case by simp
next
  case (Suc c)
  have "random_floor w (Suc c) s = (c, s\<lparr>randoms := Suc (randoms s)\<rparr>)"
    by (simp add: random_floor_def assms)
  then show ?case by (simp add: Suc.IH)
qed

lemma demo_shuffleArray:
  "shuffleArray (demo_world x) arr s = (arr, s\<lparr>randoms := randoms s + length arr\<rparr>)"
  by (simp add: shuffleArray_def shuffle_loop_top demo_fields)

section \<open>The sweep over the work list\<close>

text \<open>An item whose encoder call fails reports once and throws; any other item returns.\<close>

lemma run_item_encode_fails:
  "encode_fails w item s \<Longrightarrow>
   run_item w ns item s =
     (Threw (encode_error item),
      s\<lparr>randoms := Suc (randoms s),
        pings := pings s @ [[(''reason'', JStr (encode_error item)),
                             (''measurementID'', JStr (measurementID s))]]\<rparr>)"
proof (cases item)
  case (WebExtItem d)
  assume "encode_fails w item s"
  with WebExtItem show ?thesis by simp
next
  case (UDPItem k d q)
  assume "encode_fails w item s"
  with UDPItem show ?thesis
    by (simp add: sendUDPQuery_def encodeUDPQuery_def random_floor_def Let_def
        sendTelemetry_def split: prod.splits)
next
  case (TCPItem k d q)
  assume "encode_fails w item s"
  with TCPItem show ?thesis
    by (simp add: sendTCPQuery_def tcp_queryBuf_def encodeTCPQuery_def random_floor_def Let_def
        sendTelemetry_def split: prod.splits)
qed

lemma run_item_returns:
  "\<not> encode_fails w item s \<Longrightarrow> fst (run_item w ns item s) = Returned"
proof (cases item)
  case (WebExtItem d)
  then show ?thesis
    by (simp add: sendUDPWebExtQuery_def Let_def split: outcome.splits)
next
  case (UDPItem k d q)
  assume "\<not> encode_fails w item s"
  with UDPItem show ?thesis
    by (auto simp: sendUDPQuery_def split: prod.splits option.splits)
next
  case (TCPItem k d q)
  assume "\<not> encode_fails w item s"
  with TCPItem show ?thesis
    by (auto simp: sendTCPQuery_def split: prod.splits option.splits)
qed

lemma run_all_append:
  "run_all w ns (pre @ rest) s =
     (case run_all w ns pre s of
        (Returned, s') \<Rightarrow> run_all w ns rest s'
      | (Threw e, s') \<Rightarrow> (Threw e, s'))"
  by (induction pre arbitrary: s) (simp_all split: prod.splits completion.splits)

lemma run_all_throws_at:
  assumes "run_all w ns pre s0 = (Returned, s)" and "encode_fails w item s"
  shows "run_all w ns (pre @ item # rest) s0 =
     (Threw (encode_error item),
      s\<lparr>randoms := Suc (randoms s),
        pings := pings s @ [[(''reason'', JStr (encode_error item)),
                             (''measurementID'', JStr (measurementID s))]]\<rparr>)"
  using assms by (simp add: run_all_append run_item_encode_fails)

lemma run_all_returns:
  assumes "\<And>item s. item \<in> set qs \<Longrightarrow> \<not> encode_fails w item s"
  shows "fst (run_all w ns qs s) = Returned"
  using assms
proof (induction qs arbitrary: s)
  case Nil
  then show ?case by simp
next
  case (Cons q qs)
  have "\<not> encode_fails w q s" by (rule Cons.prems) simp
  then have "fst (run_item w ns q s) = Returned" by (rule run_item_returns)
  then obtain s' where "run_item w ns q s = (Returned, s')"
    by (cases "run_item w ns q s") simp
  moreover have "fst (run_all w ns qs s') = Returned"
    by (rule Cons.IH) (rule Cons.prems, simp)
  ultimately show ?case by simp
qed

lemma encoders_total_no_failure:
  assumes "\<And>p. DNS_PACKET_encode w p \<noteq> None" and "\<And>p. DNS_PACKET_streamEncode w p \<noteq> None"
  shows "\<not> encode_fails w item s"
  by (cases item) (simp_all add: assms encodeUDPQuery_def tcp_queryBuf_def encodeTCPQuery_def
      Let_def split_beta)

section \<open>The run identifier\<close>

text \<open>Nothing after \<^verbatim>\<open>main\<close> writes \<^verbatim>\<open>measurementID\<close>.\<close>

lemma measurementID_udp_sweep:
  "measurementID (snd (udp_sweep w key buf rr ns s)) = measurementID s"
proof (induction ns arbitrary: s)
  case Nil
  then show ?case by simp
next
  case (Cons n ns)
  show ?case
  proof (cases "udpsocket_sendDNSQuery w (length (calls s)) n buf rr")
    case (Resolved bs)
    then show ?thesis by (simp add: udp_sweep_Resolved)
  next
    case (Rejected m)
    then obtain s' where "udp_sweep w key buf rr (n # ns) s = udp_sweep w key buf rr ns s'"
      and "measurementID s' = measurementID s"
      by (rule udp_sweep_Rejected)
    with Cons.IH [of s'] show ?thesis by simp
  qed
qed

lemma measurementID_udp_passes:
  "measurementID (udp_passes w key buf rr ns n s) = measurementID s"
proof (induction n arbitrary: s)
  case 0
  then show ?case by simp
next
  case (Suc n)
  obtain b s' where sw: "udp_sweep w key buf rr ns s = (b, s')"
    by (cases "udp_sweep w key buf rr ns s")
  with measurementID_udp_sweep [of w key buf rr ns s]
  have "measurementID s' = measurementID s" by simp
  with sw Suc.IH [of s'] show ?case by (cases b) simp_all
qed

lemma measurementID_tcp_sweep:
  "measurementID (tcp_sweep w key buf ns s) = measurementID s"
proof (induction ns arbitrary: s)
  case Nil
  then show ?case by simp
next
  case (Cons n ns)
  show ?case
  proof (cases "tcpsocket_sendDNSQuery w (length (calls s)) n buf")
    case (Resolved bs)
    then show ?thesis by (simp add: tcp_sweep_Resolved)
  next
    case (Rejected m)
    then obtain s' where "tcp_sweep w key buf (n # ns) s = tcp_sweep w key buf ns s'"
      and "measurementID s' = measurementID s"
      by (rule tcp_sweep_Rejected)
    with Cons.IH [of s'] show ?thesis by simp
  qed
qed

lemma measurementID_run_item:
  "measurementID (snd (run_item w ns item s)) = measurementID s"
proof (cases item)
  case (WebExtItem d)
  then show ?thesis
    by (simp add: sendUDPWebExtQuery_def Let_def sendTelemetry_def split: outcome.splits)
next
  case (UDPItem k d q)
  then show ?thesis
    by (simp add: sendUDPQuery_def encodeUDPQuery_def random_floor_def Let_def
        sendTelemetry_def measurementID_udp_passes split: prod.splits option.splits)
next
  case (TCPItem k d q)
  then show ?thesis
    by (simp add: sendTCPQuery_def tcp_queryBuf_def encodeTCPQuery_def random_floor_def Let_def
        sendTelemetry_def measurementID_tcp_sweep split: prod.splits option.splits)
qed

lemma measurementID_run_all:
  "measurementID (snd (run_all w ns qs s)) = measurementID s"
proof (induction qs arbitrary: s)
  case Nil
  then show ?case by simp
next
  case (Cons q qs)
  obtain c s' where r: "run_item w ns q s = (c, s')" by (cases "run_item w ns q s")
  with measurementID_run_item [of w ns q s] have "measurementID s' = measurementID s" by simp
  with r Cons.IH [of s'] show ?case by (cases c) simp_all
qed

lemma measurementID_shuffle_loop:
  "measurementID (snd (shuffle_loop w c arr s)) = measurementID s"
  by (induction c arbitrary: arr s) (simp_all add: random_floor_def)

lemma measurementID_sendQueries:
  "measurementID (snd (sendQueries w ns s)) = measurementID s"
  by (simp add: sendQueries_def shuffleArray_def split_beta measurementID_run_all
      measurementID_shuffle_loop)

lemma measurementID_check_nameservers:
  "measurementID (snd (check_nameservers w ns s)) = measurementID s"
  by (induction ns) (simp_all add: sendTelemetry_def)

lemma measurementID_read_platform:
  "measurementID (snd (read_platform w s)) = measurementID s"
  by (simp add: read_platform_def sendTelemetry_def split: outcome.splits)

lemma measurementID_readNameservers:
  "measurementID (snd (readNameservers w s)) = measurementID s"
proof -
  obtain r s1 where rp: "read_platform w s = (r, s1)" by (cases "read_platform w s")
  with measurementID_read_platform [of w s] have a: "measurementID s1 = measurementID s"
    by simp
  show ?thesis
  proof (cases r)
    case (Inl e)
    with rp a show ?thesis by (simp add: readNameservers_def Let_def sendTelemetry_def)
  next
    case (Inr found)
    show ?thesis
    proof (cases found)
      case None
      with Inr rp a show ?thesis by (simp add: readNameservers_def sendTelemetry_def)
    next
      case (Some ns)
      obtain c s2 where cn: "check_nameservers w ns s1 = (c, s2)"
        by (cases "check_nameservers w ns s1")
      with measurementID_check_nameservers [of w ns s1] a
      have "measurementID s2 = measurementID s" by simp
      with Some Inr rp a cn show ?thesis
        by (cases c) (simp_all add: readNameservers_def sendTelemetry_def)
    qed
  qed
qed

section \<open>The final report\<close>

lemma completed_payload_eq:
  "completed_payload s =
     [(''reason'', JStr STUDY_MEASUREMENT_COMPLETED), (''dnsData'', JData (dnsData s)),
      (''dnsAttempts'', JAttempts (dnsAttempts s))]"
  by (simp add: completed_payload_def)

lemma runMeasurement_Returned:
  assumes "runMeasurement w status s = (Returned, s')"
  shows "pings s' \<noteq> [] \<and>
    last (pings s') =
      [(''reason'', JStr STUDY_MEASUREMENT_COMPLETED), (''dnsData'', JData (dnsData s')),
       (''dnsAttempts'', JAttempts (dnsAttempts s')),
       (''measurementID'', JStr (measurementID s'))]"
  using assms
  by (auto simp: runMeasurement_def Let_def completed_payload_eq sendTelemetry_def
      split: if_splits prod.splits sum.splits completion.splits)

lemma measurementID_runMeasurement:
  "measurementID (snd (runMeasurement w status s)) = measurementID s"
proof -
  let ?s1 = "sendTelemetry [(''reason'', JStr STUDY_START)] s"
  have a: "measurementID ?s1 = measurementID s" by (simp add: sendTelemetry_def)
  obtain r s2 where rn: "readNameservers w ?s1 = (r, s2)" by (cases "readNameservers w ?s1")
  with measurementID_readNameservers [of w ?s1] a have b: "measurementID s2 = measurementID s"
    by simp
  show ?thesis
  proof (cases r)
    case (Inl e)
    with rn b show ?thesis by (simp add: runMeasurement_def Let_def sendTelemetry_def)
  next
    case (Inr ns)
    obtain c s3 where sq: "sendQueries w ns s2 = (c, s3)" by (cases "sendQueries w ns s2")
    with measurementID_sendQueries [of w ns s2] b have "measurementID s3 = measurementID s"
      by simp
    with Inr rn sq show ?thesis
      by (cases c) (simp_all add: runMeasurement_def Let_def sendTelemetry_def)
  qed
qed

section \<open>The stored responses and the attempt counters\<close>

text \<open>
  Claim C1, on the code. In the test environment the resolver answers the baseline query,
  so the one attempt for the key \<^verbatim>\<open>udpAWebExt\<close> succeeds: the function returns without an
  error report, having issued its call, and \<^verbatim>\<open>dnsData\<close> has no entry for the key. The
  claim says that the key is set, to the response of this first success.
\<close>

theorem webext_success_not_stored:
  "dns_resolve (demo_world []) 0 APEX_DOMAIN_NAME
       [''bypass_cache'', ''disable_ipv6'', ''disable_trr''] = Resolved [''34.120.4.181'']
   \<and> sendUDPWebExtQuery (demo_world []) APEX_DOMAIN_NAME (init_state ''u'') =
       (Returned,
        (init_state ''u'')
          \<lparr>dnsAttempts := [''udpAWebExt'' \<mapsto> NaN],
           calls := [ResolveCall APEX_DOMAIN_NAME
                       [''bypass_cache'', ''disable_ipv6'', ''disable_trr'']]\<rparr>)
   \<and> dnsData (snd (sendUDPWebExtQuery (demo_world []) APEX_DOMAIN_NAME (init_state ''u'')))
         ''udpAWebExt'' = None"
  by (simp add: sendUDPWebExtQuery_def demo_fields init_state_def Let_def truthy_def
      bool_to_number_def)

text \<open>
  Claim C2, on the code. From the empty attempts map, one attempt on the UDP path and one
  on the baseline path leave the counter of the key at \<^verbatim>\<open>NaN\<close>, where the claim says 1;
  the TCP path, which sets a falsy counter to 0 first, leaves 1.
\<close>

theorem udp_unseen_key_counts_NaN:
  "dnsAttempts (init_state ''u'') ''udpA'' = None
   \<and> dnsAttempts
        (snd (sendUDPQuery (demo_world []) ''udpA'' APEX_DOMAIN_NAME (COMMON_QUERIES ! 2)
                [''172.19.134.12''] (init_state ''u''))) ''udpA'' = Some NaN
   \<and> dnsAttempts
        (snd (sendUDPWebExtQuery (demo_world []) APEX_DOMAIN_NAME (init_state ''u'')))
        ''udpAWebExt'' = Some NaN
   \<and> dnsAttempts
        (snd (sendTCPQuery (demo_world []) ''tcpA'' APEX_DOMAIN_NAME (COMMON_QUERIES ! 2)
                [''172.19.134.12''] (init_state ''u''))) ''tcpA'' = Some (Num 1)"
  by (simp add: sendUDPQuery_def sendTCPQuery_def sendUDPWebExtQuery_def
      demo_encodeUDPQuery demo_tcp_queryBuf udp_passes_two demo_fields
      udp_sweep.simps tcp_sweep.simps
      init_state_def Let_def truthy_def bool_to_number_def COMMON_QUERIES_def mk_query_def)

text \<open>
  Claim C4, on the code. A UDP work item over two nameservers, the first of which rejects
  the query: two send attempts are issued, the second succeeds and ends the item, and the
  value recorded in \<^verbatim>\<open>dnsAttempts\<close> for the key is \<^verbatim>\<open>NaN\<close>, which is neither at least 1 nor
  the number of attempts issued, 2. The error report carries the same \<^verbatim>\<open>NaN\<close>.
\<close>

theorem udp_attempts_not_counted:
  "calls (snd (sendUDPQuery (demo_world []) ''udpA'' APEX_DOMAIN_NAME (COMMON_QUERIES ! 2)
                [''172.19.134.11'', ''172.19.134.12''] (init_state ''u''))) =
     [UDPCall ''172.19.134.11'' [25] ''A'', UDPCall ''172.19.134.12'' [25] ''A'']
   \<and> dnsAttempts
        (snd (sendUDPQuery (demo_world []) ''udpA'' APEX_DOMAIN_NAME (COMMON_QUERIES ! 2)
                [''172.19.134.11'', ''172.19.134.12''] (init_state ''u''))) ''udpA'' = Some NaN
   \<and> dnsData
        (snd (sendUDPQuery (demo_world []) ''udpA'' APEX_DOMAIN_NAME (COMMON_QUERIES ! 2)
                [''172.19.134.11'', ''172.19.134.12''] (init_state ''u''))) ''udpA'' =
      Some (Bytes [1, 2, 3])
   \<and> pings
        (snd (sendUDPQuery (demo_world []) ''udpA'' APEX_DOMAIN_NAME (COMMON_QUERIES ! 2)
                [''172.19.134.11'', ''172.19.134.12''] (init_state ''u''))) =
      [[(''reason'', JStr ''STUDY_ERROR_UDP_MISC''), (''errorRRTYPE'', JStr ''udpA''),
        (''errorAttempt'', JNum NaN), (''measurementID'', JStr ''u'')]]"
  by (simp add: sendUDPQuery_def demo_encodeUDPQuery udp_passes_two demo_fields
      udp_sweep.simps
      init_state_def Let_def truthy_def COMMON_QUERIES_def mk_query_def
      APEX_DOMAIN_NAME_def sendTelemetry_def
      startsWith_def STUDY_ERROR_UDP_MISC_def num_val_def)

section \<open>Work items in the test environment\<close>

lemma demo_sendUDPQuery:
  assumes "rrtype q \<notin> set x"
  shows "sendUDPQuery (demo_world x) key domain q [''172.19.134.11'', ''172.19.134.12''] s =
    (Returned,
     s\<lparr>randoms := Suc (randoms s),
       dnsAttempts := (dnsAttempts s)(key \<mapsto> plus_one (Some (plus_one (dnsAttempts s key)))),
       calls := calls s @
         [UDPCall ''172.19.134.11'' [word_of_nat (length domain)] (rrtype q),
          UDPCall ''172.19.134.12'' [word_of_nat (length domain)] (rrtype q)],
       pings := pings s @
         [[(''reason'', JStr STUDY_ERROR_UDP_MISC), (''errorRRTYPE'', JStr key),
           (''errorAttempt'', JNum (plus_one (dnsAttempts s key))),
           (''measurementID'', JStr (measurementID s))]],
       dnsData := (if dnsData s key = None then (dnsData s)(key \<mapsto> Bytes [1, 2, 3])
                   else dnsData s)\<rparr>)"
  using assms
  by (simp add: sendUDPQuery_def demo_encodeUDPQuery udp_passes_two demo_fields
      udp_sweep.simps Let_def truthy_def sendTelemetry_def startsWith_def num_val_def)

lemma demo_sendTCPQuery:
  "sendTCPQuery (demo_world x) key domain q [''172.19.134.11'', ''172.19.134.12''] s =
    (Returned,
     s\<lparr>randoms := Suc (randoms s),
       dnsAttempts :=
         (dnsAttempts s)(key \<mapsto>
            plus_one (if truthy_num (dnsAttempts s key) then dnsAttempts s key
                      else Some (Num 0))),
       calls := calls s @ [TCPCall ''172.19.134.11'' [word_of_nat (length domain)]],
       dnsData := (if dnsData s key = None then (dnsData s)(key \<mapsto> Bytes [1, 2, 3])
                   else dnsData s)\<rparr>)"
  by (simp add: sendTCPQuery_def demo_tcp_queryBuf demo_fields tcp_sweep_Resolved)

lemma demo_sendUDPWebExtQuery:
  "sendUDPWebExtQuery (demo_world x) domain s =
    (Returned,
     s\<lparr>dnsAttempts := (dnsAttempts s)(''udpAWebExt'' \<mapsto> plus_one (dnsAttempts s ''udpAWebExt'')),
       calls := calls s @
         [ResolveCall domain [''bypass_cache'', ''disable_ipv6'', ''disable_trr'']],
       dnsData := (if dnsData s ''udpAWebExt'' = None then dnsData s
                   else (dnsData s)(''udpAWebExt'' \<mapsto> Addresses [''34.120.4.181'']))\<rparr>)"
  by (simp add: sendUDPWebExtQuery_def demo_fields Let_def truthy_def bool_to_number_def)

section \<open>A run that meets an encoding failure\<close>

lemma demo_prefix_items:
  "WebExtItem APEX_DOMAIN_NAME # query_items (COMMON_QUERIES ! 0) =
     [WebExtItem APEX_DOMAIN_NAME,
      UDPItem ''udpSMIMEA'' (SMIMEA_PREFIX @ APEX_DOMAIN_NAME) (COMMON_QUERIES ! 0),
      TCPItem ''tcpSMIMEA'' (SMIMEA_PREFIX @ APEX_DOMAIN_NAME) (COMMON_QUERIES ! 0),
      UDPItem ''udpSMIMEA-U''
        (SMIMEA_PREFIX @ ''udpSMIMEA-U'' @ ''.'' @ PER_CLIENT_PREFIX @ APEX_DOMAIN_NAME)
        (COMMON_QUERIES ! 0),
      TCPItem ''tcpSMIMEA-U''
        (SMIMEA_PREFIX @ ''udpSMIMEA-U'' @ ''.'' @ PER_CLIENT_PREFIX @ APEX_DOMAIN_NAME)
        (COMMON_QUERIES ! 0)]"
  by (simp add: query_items_def COMMON_QUERIES_def mk_query_def computeKey_def Let_def)

lemma rrtype_first_entry: "rrtype (COMMON_QUERIES ! 0) = ''SMIMEA''"
  by (simp add: COMMON_QUERIES_def mk_query_def)

lemma demo_prefix_run:
  "run_all (demo_world [''HTTPS'']) demo_nameservers
     (WebExtItem APEX_DOMAIN_NAME # query_items (COMMON_QUERIES ! 0))
     ((sendTelemetry [(''reason'', JStr STUDY_START)] (init_state ''u''))\<lparr>randoms := 53\<rparr>)
   = (Returned, demo_state_before_https)"
  unfolding demo_prefix_items demo_nameservers_def demo_state_before_https_def
  by (simp add: demo_sendUDPQuery demo_sendTCPQuery demo_sendUDPWebExtQuery rrtype_first_entry
      init_state_def sendTelemetry_def STUDY_START_def STUDY_ERROR_UDP_MISC_def
      SMIMEA_PREFIX_def APEX_DOMAIN_NAME_def PER_CLIENT_PREFIX_def)

lemma work_list_split:
  "work_list =
     (WebExtItem APEX_DOMAIN_NAME # query_items (COMMON_QUERIES ! 0))
     @ UDPItem ''udpHTTPS'' (HTTPS_PREFIX @ APEX_DOMAIN_NAME) (COMMON_QUERIES ! 1)
     # (tl (query_items (COMMON_QUERIES ! 1)) @ concat (map query_items (drop 2 COMMON_QUERIES)))"
  by (simp add: work_list_def COMMON_QUERIES_def query_items_def mk_query_def computeKey_def
      Let_def)

lemma length_work_list: "length work_list = 53"
  by (simp add: work_list_def COMMON_QUERIES_def query_items_def Let_def)

lemma demo_https_premises:
  "readNameservers (demo_world [''HTTPS''])
     (sendTelemetry [(''reason'', JStr STUDY_START)] (init_state ''u'')) =
     (Inr demo_nameservers, sendTelemetry [(''reason'', JStr STUDY_START)] (init_state ''u''))"
  "shuffleArray (demo_world [''HTTPS'']) work_list
     (sendTelemetry [(''reason'', JStr STUDY_START)] (init_state ''u'')) =
     ((WebExtItem APEX_DOMAIN_NAME # query_items (COMMON_QUERIES ! 0))
      @ UDPItem ''udpHTTPS'' (HTTPS_PREFIX @ APEX_DOMAIN_NAME) (COMMON_QUERIES ! 1)
      # (tl (query_items (COMMON_QUERIES ! 1))
         @ concat (map query_items (drop 2 COMMON_QUERIES))),
      (sendTelemetry [(''reason'', JStr STUDY_START)] (init_state ''u''))\<lparr>randoms := 53\<rparr>)"
  "encode_fails (demo_world [''HTTPS''])
     (UDPItem ''udpHTTPS'' (HTTPS_PREFIX @ APEX_DOMAIN_NAME) (COMMON_QUERIES ! 1))
     demo_state_before_https"
proof -
  show "readNameservers (demo_world [''HTTPS''])
     (sendTelemetry [(''reason'', JStr STUDY_START)] (init_state ''u'')) =
     (Inr demo_nameservers, sendTelemetry [(''reason'', JStr STUDY_START)] (init_state ''u''))"
    by (simp add: demo_readNameservers demo_nameservers_def)
  have "randoms (sendTelemetry [(''reason'', JStr STUDY_START)] (init_state ''u'')) = 0"
    by (simp add: sendTelemetry_def init_state_def)
  then have "shuffleArray (demo_world [''HTTPS'']) work_list
     (sendTelemetry [(''reason'', JStr STUDY_START)] (init_state ''u'')) =
     (work_list,
      (sendTelemetry [(''reason'', JStr STUDY_START)] (init_state ''u''))\<lparr>randoms := 53\<rparr>)"
    by (simp add: demo_shuffleArray length_work_list)
  then show "shuffleArray (demo_world [''HTTPS'']) work_list
     (sendTelemetry [(''reason'', JStr STUDY_START)] (init_state ''u'')) =
     ((WebExtItem APEX_DOMAIN_NAME # query_items (COMMON_QUERIES ! 0))
      @ UDPItem ''udpHTTPS'' (HTTPS_PREFIX @ APEX_DOMAIN_NAME) (COMMON_QUERIES ! 1)
      # (tl (query_items (COMMON_QUERIES ! 1))
         @ concat (map query_items (drop 2 COMMON_QUERIES))),
      (sendTelemetry [(''reason'', JStr STUDY_START)] (init_state ''u''))\<lparr>randoms := 53\<rparr>)"
    unfolding work_list_split [symmetric] .
  show "encode_fails (demo_world [''HTTPS''])
     (UDPItem ''udpHTTPS'' (HTTPS_PREFIX @ APEX_DOMAIN_NAME) (COMMON_QUERIES ! 1))
     demo_state_before_https"
    by (simp add: demo_encodeUDPQuery COMMON_QUERIES_def mk_query_def)
qed

lemma runMeasurement_throws_at:
  assumes "captiveStatus = ''unlocked_portal'' \<or> captiveStatus = ''not_captive''
           \<or> captiveStatus = ''clear''"
    and "readNameservers w (sendTelemetry [(''reason'', JStr STUDY_START)] s) =
           (Inr nameservers, s1)"
    and "shuffleArray w work_list s1 = (pre @ item # rest, s2)"
    and "run_all w nameservers pre s2 = (Returned, s3)"
    and "encode_fails w item s3"
  shows "runMeasurement w captiveStatus s =
     (Threw (encode_error item),
      s3\<lparr>randoms := Suc (randoms s3),
         pings := pings s3 @ [[(''reason'', JStr (encode_error item)),
                               (''measurementID'', JStr (measurementID s3))]]\<rparr>)"
proof -
  have "sendQueries w nameservers s1 =
     (Threw (encode_error item),
      s3\<lparr>randoms := Suc (randoms s3),
         pings := pings s3 @ [[(''reason'', JStr (encode_error item)),
                               (''measurementID'', JStr (measurementID s3))]]\<rparr>)"
    using assms(3) run_all_throws_at [OF assms(4) assms(5)]
    by (simp add: sendQueries_def)
  with assms(1) assms(2) show ?thesis
    by (auto simp: runMeasurement_def Let_def)
qed

text \<open>
  Claim C7, as amended. When the encoder call of a work item fails, the items before it
  in the shuffled list having returned, exactly one encode-error report is emitted for
  it, no attempt counter and no stored response changes and no socket call is issued for
  it; the error then leaves \<^verbatim>\<open>sendQueries\<close> and \<^verbatim>\<open>runMeasurement\<close>: the run ends by throwing
  that error, in the state reached at the failure, so that no later item of the list
  executes and no final report is emitted.
\<close>

theorem encode_failure_aborts_run:
  assumes "captiveStatus = ''unlocked_portal'' \<or> captiveStatus = ''not_captive''
           \<or> captiveStatus = ''clear''"
    and "readNameservers w (sendTelemetry [(''reason'', JStr STUDY_START)] s) =
           (Inr nameservers, s1)"
    and "shuffleArray w work_list s1 = (pre @ item # rest, s2)"
    and "run_all w nameservers pre s2 = (Returned, s3)"
    and "encode_fails w item s3"
  shows "runMeasurement w captiveStatus s =
     (Threw (encode_error item),
      s3\<lparr>randoms := Suc (randoms s3),
         pings := pings s3 @ [[(''reason'', JStr (encode_error item)),
                               (''measurementID'', JStr (measurementID s3))]]\<rparr>)"
  using assms by (rule runMeasurement_throws_at)

theorem encode_failure_aborts_run_witness:
  "readNameservers (demo_world [''HTTPS''])
     (sendTelemetry [(''reason'', JStr STUDY_START)] (init_state ''u'')) =
     (Inr demo_nameservers, sendTelemetry [(''reason'', JStr STUDY_START)] (init_state ''u''))
   \<and> shuffleArray (demo_world [''HTTPS'']) work_list
       (sendTelemetry [(''reason'', JStr STUDY_START)] (init_state ''u'')) =
       ((WebExtItem APEX_DOMAIN_NAME # query_items (COMMON_QUERIES ! 0))
        @ UDPItem ''udpHTTPS'' (HTTPS_PREFIX @ APEX_DOMAIN_NAME) (COMMON_QUERIES ! 1)
        # (tl (query_items (COMMON_QUERIES ! 1))
           @ concat (map query_items (drop 2 COMMON_QUERIES))),
        (sendTelemetry [(''reason'', JStr STUDY_START)] (init_state ''u''))\<lparr>randoms := 53\<rparr>)
   \<and> run_all (demo_world [''HTTPS'']) demo_nameservers
       (WebExtItem APEX_DOMAIN_NAME # query_items (COMMON_QUERIES ! 0))
       ((sendTelemetry [(''reason'', JStr STUDY_START)] (init_state ''u''))\<lparr>randoms := 53\<rparr>)
       = (Returned, demo_state_before_https)
   \<and> encode_fails (demo_world [''HTTPS''])
       (UDPItem ''udpHTTPS'' (HTTPS_PREFIX @ APEX_DOMAIN_NAME) (COMMON_QUERIES ! 1))
       demo_state_before_https
   \<and> runMeasurement (demo_world [''HTTPS'']) ''not_captive'' (init_state ''u'') =
       (Threw STUDY_ERROR_UDP_ENCODE,
        demo_state_before_https
          \<lparr>randoms := 58,
           pings := pings demo_state_before_https @
             [[(''reason'', JStr STUDY_ERROR_UDP_ENCODE), (''measurementID'', JStr ''u'')]]\<rparr>)"
proof -
  have st: "''not_captive'' = ''unlocked_portal'' \<or> ''not_captive'' = ''not_captive''
           \<or> ''not_captive'' = ''clear''" by simp
  have "runMeasurement (demo_world [''HTTPS'']) ''not_captive'' (init_state ''u'') =
     (Threw (encode_error
        (UDPItem ''udpHTTPS'' (HTTPS_PREFIX @ APEX_DOMAIN_NAME) (COMMON_QUERIES ! 1))),
      demo_state_before_https
        \<lparr>randoms := Suc (randoms demo_state_before_https),
         pings := pings demo_state_before_https @
           [[(''reason'', JStr (encode_error
               (UDPItem ''udpHTTPS'' (HTTPS_PREFIX @ APEX_DOMAIN_NAME) (COMMON_QUERIES ! 1)))),
             (''measurementID'', JStr (measurementID demo_state_before_https))]]\<rparr>)"
    by (rule encode_failure_aborts_run
        [OF st demo_https_premises(1) demo_https_premises(2) demo_prefix_run
          demo_https_premises(3)])
  moreover have "randoms demo_state_before_https = 57"
    and "measurementID demo_state_before_https = ''u''"
    by (simp_all add: demo_state_before_https_def)
  ultimately show ?thesis
    using demo_https_premises demo_prefix_run by simp
qed

text \<open>
  The claim as stated fails in this run: the encoding of the sixth work item fails, the
  run throws, its last ping is the encode-error report and not a final report, and the
  next item of the sweep, the TCP query for HTTPS, is never attempted.
\<close>

theorem encode_failure_counterexample:
  "fst (runMeasurement (demo_world [''HTTPS'']) ''not_captive'' (init_state ''u'')) =
     Threw ''STUDY_ERROR_UDP_ENCODE''
   \<and> pings (snd (runMeasurement (demo_world [''HTTPS'']) ''not_captive'' (init_state ''u''))) =
       [[(''reason'', JStr ''STUDY_START''), (''measurementID'', JStr ''u'')],
        [(''reason'', JStr ''STUDY_ERROR_UDP_MISC''), (''errorRRTYPE'', JStr ''udpSMIMEA''),
         (''errorAttempt'', JNum NaN), (''measurementID'', JStr ''u'')],
        [(''reason'', JStr ''STUDY_ERROR_UDP_MISC''), (''errorRRTYPE'', JStr ''udpSMIMEA-U''),
         (''errorAttempt'', JNum NaN), (''measurementID'', JStr ''u'')],
        [(''reason'', JStr ''STUDY_ERROR_UDP_ENCODE''), (''measurementID'', JStr ''u'')]]
   \<and> length (calls (snd (runMeasurement (demo_world [''HTTPS'']) ''not_captive''
                           (init_state ''u'')))) = 7
   \<and> dnsAttempts (snd (runMeasurement (demo_world [''HTTPS'']) ''not_captive''
                         (init_state ''u''))) ''tcpHTTPS'' = None
   \<and> TCPItem ''tcpHTTPS'' (HTTPS_PREFIX @ APEX_DOMAIN_NAME) (COMMON_QUERIES ! 1)
       \<in> set work_list"
proof -
  have st: "''not_captive'' = ''unlocked_portal'' \<or> ''not_captive'' = ''not_captive''
           \<or> ''not_captive'' = ''clear''" by simp
  have run: "runMeasurement (demo_world [''HTTPS'']) ''not_captive'' (init_state ''u'') =
     (Threw (encode_error
        (UDPItem ''udpHTTPS'' (HTTPS_PREFIX @ APEX_DOMAIN_NAME) (COMMON_QUERIES ! 1))),
      demo_state_before_https
        \<lparr>randoms := Suc (randoms demo_state_before_https),
         pings := pings demo_state_before_https @
           [[(''reason'', JStr (encode_error
               (UDPItem ''udpHTTPS'' (HTTPS_PREFIX @ APEX_DOMAIN_NAME) (COMMON_QUERIES ! 1)))),
             (''measurementID'', JStr (measurementID demo_state_before_https))]]\<rparr>)"
    by (rule runMeasurement_throws_at
        [OF st demo_https_premises(1) demo_https_premises(2) demo_prefix_run
          demo_https_premises(3)])
  have item: "TCPItem ''tcpHTTPS'' (HTTPS_PREFIX @ APEX_DOMAIN_NAME) (COMMON_QUERIES ! 1)
       \<in> set work_list"
    by (simp add: work_list_def COMMON_QUERIES_def query_items_def mk_query_def computeKey_def
        Let_def)
  show ?thesis
    unfolding run using item
    by (simp add: demo_state_before_https_def STUDY_ERROR_UDP_ENCODE_def)
qed

section \<open>The final report\<close>

lemma demo_run_returns:
  "fst (runMeasurement (demo_world []) ''not_captive'' (init_state ''u'')) = Returned"
proof -
  have "\<not> encode_fails (demo_world []) item s" for item s
    by (rule encoders_total_no_failure) (simp_all add: demo_fields demo_encode_def)
  then have "fst (run_all (demo_world []) ns qs s) = Returned" for ns qs s
    by (rule run_all_returns)
  then have "fst (sendQueries (demo_world []) ns s) = Returned" for ns s
    by (simp add: sendQueries_def demo_shuffleArray)
  then show ?thesis
    by (simp add: runMeasurement_def Let_def demo_readNameservers split_beta
        split: completion.splits)
qed

text \<open>
  Claim C8, as amended. The report emitted at the end of a run that completes is the last
  ping of the run, a flat payload whose field set is exactly \<^verbatim>\<open>reason\<close>, \<^verbatim>\<open>dnsData\<close>,
  \<^verbatim>\<open>dnsAttempts\<close> and \<^verbatim>\<open>measurementID\<close>: the reason is \<^verbatim>\<open>STUDY_MEASUREMENT_COMPLETED\<close>, the
  two maps are those of the end of the run and the identifier is the run's. It has no
  field \<^verbatim>\<open>dnsQueryErrors\<close>, \<^verbatim>\<open>dnsQueryInfo\<close>, \<^verbatim>\<open>hasErrors\<close>, \<^verbatim>\<open>addonVersion\<close> or \<^verbatim>\<open>apexDomain\<close>;
  the code keeps no error log, each failed attempt being reported by a ping of its own.
\<close>

theorem completed_report_fields:
  assumes "runMeasurement w captiveStatus s = (Returned, s')"
  shows "pings s' \<noteq> []
    \<and> last (pings s') =
        [(''reason'', JStr STUDY_MEASUREMENT_COMPLETED), (''dnsData'', JData (dnsData s')),
         (''dnsAttempts'', JAttempts (dnsAttempts s')),
         (''measurementID'', JStr (measurementID s))]
    \<and> field_names (last (pings s')) = {''reason'', ''dnsData'', ''dnsAttempts'', ''measurementID''}"
proof -
  from measurementID_runMeasurement [of w captiveStatus s] assms
  have "measurementID s' = measurementID s" by simp
  with runMeasurement_Returned [OF assms] show ?thesis by (simp add: field_names_def)
qed

theorem completed_report_fields_witness:
  "runMeasurement (demo_world []) ''not_captive'' (init_state ''u'') =
     (Returned, snd (runMeasurement (demo_world []) ''not_captive'' (init_state ''u'')))
   \<and> last (pings (snd (runMeasurement (demo_world []) ''not_captive'' (init_state ''u'')))) =
       [(''reason'', JStr STUDY_MEASUREMENT_COMPLETED),
        (''dnsData'',
         JData (dnsData (snd (runMeasurement (demo_world []) ''not_captive''
                                (init_state ''u''))))),
        (''dnsAttempts'',
         JAttempts (dnsAttempts (snd (runMeasurement (demo_world []) ''not_captive''
                                        (init_state ''u''))))),
        (''measurementID'', JStr ''u'')]
   \<and> field_names (last (pings (snd (runMeasurement (demo_world []) ''not_captive''
                                 (init_state ''u''))))) =
       {''reason'', ''dnsData'', ''dnsAttempts'', ''measurementID''}"
proof -
  have r: "runMeasurement (demo_world []) ''not_captive'' (init_state ''u'') =
     (Returned, snd (runMeasurement (demo_world []) ''not_captive'' (init_state ''u'')))"
    using demo_run_returns by (simp add: prod_eq_iff)
  have "measurementID (init_state ''u'') = ''u''" by (simp add: init_state_def)
  with completed_report_fields [OF r] r show ?thesis by (simp add: field_names_def)
qed

text \<open>
  The report of a completed run in the test environment has the four fields only, not the
  nine of the claim: there is no \<^verbatim>\<open>hasErrors\<close> field, among others.
\<close>

theorem completed_report_fields_counterexample:
  "fst (runMeasurement (demo_world []) ''not_captive'' (init_state ''u'')) = Returned
   \<and> field_names (last (pings (snd (runMeasurement (demo_world []) ''not_captive''
                                 (init_state ''u''))))) =
       {''reason'', ''dnsData'', ''dnsAttempts'', ''measurementID''}
   \<and> field_names (last (pings (snd (runMeasurement (demo_world []) ''not_captive''
                                 (init_state ''u'')))))
       \<noteq> {''reason'', ''measurementID'', ''dnsAttempts'', ''dnsData'', ''dnsQueryErrors'',
           ''dnsQueryInfo'', ''hasErrors'', ''addonVersion'', ''apexDomain''}
   \<and> ''hasErrors'' \<notin> field_names (last (pings (snd (runMeasurement (demo_world [])
                                                  ''not_captive'' (init_state ''u'')))))"
proof -
  have r: "runMeasurement (demo_world []) ''not_captive'' (init_state ''u'') =
     (Returned, snd (runMeasurement (demo_world []) ''not_captive'' (init_state ''u'')))"
    using demo_run_returns by (simp add: prod_eq_iff)
  have f: "field_names (last (pings (snd (runMeasurement (demo_world []) ''not_captive''
                                 (init_state ''u''))))) =
       {''reason'', ''dnsData'', ''dnsAttempts'', ''measurementID''}"
    using runMeasurement_Returned [OF r] by (simp add: field_names_def)
  have "''hasErrors'' \<notin> {''reason'', ''dnsData'', ''dnsAttempts'', ''measurementID''}"
    by simp
  moreover have "''hasErrors'' \<in> {''reason'', ''measurementID'', ''dnsAttempts'', ''dnsData'',
       ''dnsQueryErrors'', ''dnsQueryInfo'', ''hasErrors'', ''addonVersion'', ''apexDomain''}"
    by simp
  ultimately have "{''reason'', ''dnsData'', ''dnsAttempts'', ''measurementID''}
       \<noteq> {''reason'', ''measurementID'', ''dnsAttempts'', ''dnsData'', ''dnsQueryErrors'',
           ''dnsQueryInfo'', ''hasErrors'', ''addonVersion'', ''apexDomain''}"
    by metis
  with f demo_run_returns show ?thesis by simp
qed

end
